theory Spec2Isabelle
  imports Main
begin

section \<open>Errors\<close>

text \<open>
  Every \<^verbatim>\<open>raise\<close> of \<^verbatim>\<open>convert_kaggle_dataset.py\<close>, and every exception the Python
  runtime raises on a missing key, an index out of range or a call with the wrong number
  of arguments, is a value of this type. The constructors keep the exception class and
  the text that sets the messages apart; the number or table a message prints is the
  constructor's argument.
\<close>

datatype category = Skip | Discard | Chi | Pon | DaiMinKan | ShouMinKan | AnKan | Riichi

datatype error =
    ValueError_negative int          \<comment> \<open>ValueError "negative tile id: n"\<close>
  | ValueError_unknown int           \<comment> \<open>ValueError "unknown tile id n"\<close>
  | RuntimeError_missing_target category
      \<comment> \<open>RuntimeError "chi action missing target tile" and its pon and daiminkan siblings\<close>
  | RuntimeError_four_tiles category
      \<comment> \<open>RuntimeError "shouminkan expects four tiles from actor", "ankan expects four tiles"\<close>
  | RuntimeError_empty category      \<comment> \<open>RuntimeError "table T is empty"\<close>
  | RuntimeError_decompress int category
      \<comment> \<open>RuntimeError "failed to decompress row i in T"\<close>
  | KeyError string
  | IndexError
  | TypeError
  | JSONDecodeError

text \<open>The three error kinds the specification names, as sets of exceptions of the code.\<close>

fun InvalidTileId :: "error \<Rightarrow> bool" where
  "InvalidTileId (ValueError_negative n) = True"
| "InvalidTileId (ValueError_unknown n) = True"
| "InvalidTileId e = False"

fun MalformedAction :: "error \<Rightarrow> bool" where
  "MalformedAction (RuntimeError_missing_target c) = True"
| "MalformedAction (RuntimeError_four_tiles c) = True"
| "MalformedAction e = False"

fun EmptyCategory :: "error \<Rightarrow> bool" where
  "EmptyCategory (RuntimeError_empty c) = True"
| "EmptyCategory e = False"

section \<open>Tile codec\<close>

definition MJAI_TILES :: "string list" where
  "MJAI_TILES =
    [''1m'', ''2m'', ''3m'', ''4m'', ''5m'', ''6m'', ''7m'', ''8m'', ''9m'',
     ''1p'', ''2p'', ''3p'', ''4p'', ''5p'', ''6p'', ''7p'', ''8p'', ''9p'',
     ''1s'', ''2s'', ''3s'', ''4s'', ''5s'', ''6s'', ''7s'', ''8s'', ''9s'',
     ''E'', ''S'', ''W'', ''N'', ''P'', ''F'', ''C'']"

definition WIND_TO_TILE :: "int \<rightharpoonup> string" where
  "WIND_TO_TILE = [0 \<mapsto> ''E'', 1 \<mapsto> ''S'', 2 \<mapsto> ''W'', 3 \<mapsto> ''N'']"

text \<open>
  \<^verbatim>\<open>tile_id_to_mjai\<close>: a negative id raises at once; otherwise \<^verbatim>\<open>tile_id // 4\<close> indexes
  the table, and the IndexError of an index past its end is caught and raised again as
  a ValueError. The index is never negative there, so Python's wrap-around of negative
  indices plays no part.
\<close>

definition tile_id_to_mjai :: "int \<Rightarrow> error + string" where
  "tile_id_to_mjai tile_id =
     (if tile_id < 0 then Inl (ValueError_negative tile_id)
      else let tile_type = tile_id div 4
           in if nat tile_type < length MJAI_TILES then Inr (MJAI_TILES ! nat tile_type)
              else Inl (ValueError_unknown tile_id))"

section \<open>Python helpers\<close>

text \<open>\<^verbatim>\<open>d.get(key, default)\<close> on a key that may be absent (\<open>None\<close>).\<close>

definition dict_get :: "'a option \<Rightarrow> 'a \<Rightarrow> 'a" where
  "dict_get v dflt = (case v of None \<Rightarrow> dflt | Some x \<Rightarrow> x)"

text \<open>\<^verbatim>\<open>d[key]\<close>: a missing key raises KeyError.\<close>

definition dict_item :: "'a option \<Rightarrow> string \<Rightarrow> error + 'a" where
  "dict_item v key = (case v of None \<Rightarrow> Inl (KeyError key) | Some x \<Rightarrow> Inr x)"

text \<open>
  \<^verbatim>\<open>xs[i]\<close> and \<^verbatim>\<open>xs[i] = v\<close> on a Python list: a negative index counts from the
  end, and an index outside \<open>-len(xs) .. len(xs) - 1\<close> raises IndexError.
\<close>

definition list_item :: "'a list \<Rightarrow> int \<Rightarrow> error + 'a" where
  "list_item xs i =
     (if 0 \<le> i \<and> i < int (length xs) then Inr (xs ! nat i)
      else if i < 0 \<and> - int (length xs) \<le> i then Inr (xs ! nat (int (length xs) + i))
      else Inl IndexError)"

definition list_setitem :: "'a list \<Rightarrow> int \<Rightarrow> 'a \<Rightarrow> error + 'a list" where
  "list_setitem xs i v =
     (if 0 \<le> i \<and> i < int (length xs) then Inr (xs[nat i := v])
      else if i < 0 \<and> - int (length xs) \<le> i then Inr (xs[nat (int (length xs) + i) := v])
      else Inl IndexError)"

text \<open>
  A list comprehension \<^verbatim>\<open>[f(x) for x in xs]\<close> whose element expression may raise: the
  elements are computed from left to right and the first exception ends it.
\<close>

fun map_err :: "('a \<Rightarrow> error + 'b) \<Rightarrow> 'a list \<Rightarrow> error + 'b list" where
  "map_err f [] = Inr []"
| "map_err f (x # xs) =
     (case f x of
        Inl e \<Rightarrow> Inl e
      | Inr y \<Rightarrow> (case map_err f xs of Inl e \<Rightarrow> Inl e | Inr ys \<Rightarrow> Inr (y # ys)))"

section \<open>Snapshots and events\<close>

text \<open>
  A snapshot is the JSON object of one row. Each key the code reads is a field; a key
  that is absent from the object is \<open>None\<close>. Values have the JSON type the code expects
  (integers where it calls \<^verbatim>\<open>int\<close>, lists of integers for tiles), so \<^verbatim>\<open>int(x)\<close>
  is the identity. The per-seat objects under the keys "0" to "3" are \<open>seat\<close> at 0 to 3.
  The keys "kyoku" and "oya" are the fields \<open>state_kyoku\<close> and \<open>state_oya\<close>, since
  the round-start event has fields of the same names.
\<close>

record seat_record =
  points :: "int option"
  PointsReward :: "int option"

record action =
  tiles :: "int list option"
  who :: "int list option"

record snapshot =
  round_wind :: "int option"
  dora_indicators :: "int list option"
  num_honba :: "int option"
  num_riichi :: "int option"
  state_kyoku :: "int option"
  state_oya :: "int option"
  player_wind :: "int option"
  hand_tiles :: "int list option"
  seat :: "nat \<Rightarrow> seat_record option"
  valid_actions :: "action list option"
  action_idx :: "int option"

record start_kyoku =
  bakaze :: string
  dora_marker :: string
  kyoku :: int
  honba :: int
  kyotaku :: int
  oya :: int
  scores :: "int list"
  tehais :: "string list list"

text \<open>
  An event is a dictionary whose "type" entry is the constructor here; the field
  \<^verbatim>\<open>pai\<close> of an event is \<open>ev_pai\<close>, and likewise for the others.
\<close>

datatype event =
    E_start_game (ev_names: "string list")
  | E_start_kyoku start_kyoku
  | E_tsumo (ev_actor: int) (ev_pai: string)
  | E_dahai (ev_actor: int) (ev_pai: string) (ev_tsumogiri: bool)
  | E_chi (ev_actor: int) (ev_target: int) (ev_pai: string) (ev_consumed: "string list")
  | E_pon (ev_actor: int) (ev_target: int) (ev_pai: string) (ev_consumed: "string list")
  | E_daiminkan (ev_actor: int) (ev_target: int) (ev_pai: string) (ev_consumed: "string list")
  | E_kakan (ev_actor: int) (ev_pai: string) (ev_consumed: "string list")
  | E_ankan (ev_actor: int) (ev_consumed: "string list")
  | E_reach (ev_actor: int)
  | E_ryukyoku (ev_deltas: "int list")
  | E_end_kyoku
  | E_end_game

text \<open>The "type" entry each builder writes into its dictionary.\<close>

fun event_type :: "event \<Rightarrow> string" where
  "event_type (E_start_game ns) = ''start_game''"
| "event_type (E_start_kyoku sk) = ''start_kyoku''"
| "event_type (E_tsumo a p) = ''tsumo''"
| "event_type (E_dahai a p g) = ''dahai''"
| "event_type (E_chi a t p c) = ''chi''"
| "event_type (E_pon a t p c) = ''pon''"
| "event_type (E_daiminkan a t p c) = ''daiminkan''"
| "event_type (E_kakan a p c) = ''kakan''"
| "event_type (E_ankan a c) = ''ankan''"
| "event_type (E_reach a) = ''reach''"
| "event_type (E_ryukyoku ds) = ''ryukyoku''"
| "event_type E_end_kyoku = ''end_kyoku''"
| "event_type E_end_game = ''end_game''"

section \<open>Action payloads\<close>

definition tiles_from_action :: "action \<Rightarrow> (int \<times> int) list" where
  "tiles_from_action payload =
     filter (\<lambda>(tile, owner). tile \<ge> 0) (zip (dict_get (tiles payload) []) (dict_get (who payload) []))"

text \<open>
  The loop of \<^verbatim>\<open>_split_action_tiles\<close>, with its three variables as arguments. The tile is
  decoded before its owner is looked at.
\<close>

fun split_loop ::
  "(int \<times> int) list \<Rightarrow> int \<Rightarrow> string list \<Rightarrow> string option \<Rightarrow> int option
     \<Rightarrow> error + (string list \<times> string option \<times> int option)" where
  "split_loop [] actor consumed pai target = Inr (consumed, pai, target)"
| "split_loop ((tile_id, owner) # rest) actor consumed pai target =
     (case tile_id_to_mjai tile_id of
        Inl e \<Rightarrow> Inl e
      | Inr tile \<Rightarrow>
          if owner = actor then split_loop rest actor (consumed @ [tile]) pai target
          else split_loop rest actor consumed (Some tile) (Some owner))"

text \<open>
  \<^verbatim>\<open>[pai] if pai else []\<close> tests the truth of \<^verbatim>\<open>pai\<close>: \<^verbatim>\<open>None\<close> and the empty string
  both give the empty list.
\<close>

definition split_action_tiles ::
  "action \<Rightarrow> int \<Rightarrow> error + (string list \<times> string list \<times> int option)" where
  "split_action_tiles act actor =
     (case split_loop (tiles_from_action act) actor [] None None of
        Inl e \<Rightarrow> Inl e
      | Inr (consumed, pai, target) \<Rightarrow>
          Inr (consumed,
               (case pai of None \<Rightarrow> [] | Some p \<Rightarrow> if p = [] then [] else [p]),
               target))"

text \<open>
  \<^verbatim>\<open>state["valid_actions"][state["action_idx"]]\<close>, the first statement after the actor
  of every builder that reads an action entry.
\<close>

definition selected_action :: "snapshot \<Rightarrow> error + action" where
  "selected_action state =
     (case dict_item (valid_actions state) ''valid_actions'' of
        Inl e \<Rightarrow> Inl e
      | Inr acts \<Rightarrow>
          (case dict_item (action_idx state) ''action_idx'' of
             Inl e \<Rightarrow> Inl e
           | Inr idx \<Rightarrow> list_item acts idx))"

text \<open>
  \<^verbatim>\<open>[tile_id_to_mjai(tile) for tile, owner in tiles_from_action(action) if owner == actor]\<close>
  of the two quad builders: the owner is tested first, so only the actor's tiles are
  decoded.
\<close>

definition actor_tiles :: "action \<Rightarrow> int \<Rightarrow> error + string list" where
  "actor_tiles act actor =
     map_err tile_id_to_mjai
       (map fst (filter (\<lambda>(tile, owner). owner = actor) (tiles_from_action act)))"

section \<open>Event builders\<close>

definition start_game_event :: event where
  "start_game_event = E_start_game [''Player0'', ''Player1'', ''Player2'', ''Player3'']"

text \<open>
  \<^verbatim>\<open>state[str(idx)]["points"]\<close> and \<^verbatim>\<open>state[str(idx)].get("PointsReward", 0)\<close> for one
  seat; the key of the seat object is the decimal digit of \<open>idx\<close>.
\<close>

definition seat_key :: "nat \<Rightarrow> string" where
  "seat_key idx = [char_of (48 + idx)]"

definition seat_points :: "snapshot \<Rightarrow> nat \<Rightarrow> error + int" where
  "seat_points state idx =
     (case dict_item (seat state idx) (seat_key idx) of
        Inl e \<Rightarrow> Inl e
      | Inr r \<Rightarrow> dict_item (points r) ''points'')"

definition seat_reward :: "snapshot \<Rightarrow> nat \<Rightarrow> error + int" where
  "seat_reward state idx =
     (case dict_item (seat state idx) (seat_key idx) of
        Inl e \<Rightarrow> Inl e
      | Inr r \<Rightarrow> Inr (dict_get (PointsReward r) 0))"

text \<open>
  \<^verbatim>\<open>start_kyoku_event\<close>, in the order of its statements: the round wind, the dora
  marker (\<^verbatim>\<open>state.get("dora_indicators") or [0]\<close> is \<open>[0]\<close> for an absent and for an
  empty list), the four points, then every hand tile decoded, the first 13 of them padded
  to 13 entries, and the assignment \<^verbatim>\<open>tehais[actor] = concealed[:13]\<close>.
\<close>

definition start_kyoku_event :: "snapshot \<Rightarrow> error + event" where
  "start_kyoku_event state =
     (let wind = (case WIND_TO_TILE (dict_get (round_wind state) 0) of
                    None \<Rightarrow> ''E'' | Some w \<Rightarrow> w);
          dora_markers = (case dora_indicators state of
                            None \<Rightarrow> [0] | Some [] \<Rightarrow> [0] | Some (d # ds) \<Rightarrow> d # ds)
      in case list_item dora_markers 0 of
           Inl e \<Rightarrow> Inl e
         | Inr dora_id \<Rightarrow>
        (case tile_id_to_mjai dora_id of
           Inl e \<Rightarrow> Inl e
         | Inr dora \<Rightarrow>
        (case map_err (seat_points state) [0, 1, 2, 3] of
           Inl e \<Rightarrow> Inl e
         | Inr pts \<Rightarrow>
        (case map_err tile_id_to_mjai (dict_get (hand_tiles state) []) of
           Inl e \<Rightarrow> Inl e
         | Inr hand \<Rightarrow>
             (let concealed = take 13 hand;
                  concealed = (if length concealed < 13
                               then concealed @ replicate (13 - length concealed) ''?''
                               else concealed)
              in case list_setitem (replicate 4 (replicate 13 ''?''))
                        (dict_get (player_wind state) 0) (take 13 concealed) of
                   Inl e \<Rightarrow> Inl e
                 | Inr hands \<Rightarrow>
                     Inr (E_start_kyoku
                       \<lparr>bakaze = wind, dora_marker = dora,
                        kyoku = max 1 (min 4 (dict_get (state_kyoku state) 1)),
                        honba = dict_get (num_honba state) 0,
                        kyotaku = dict_get (num_riichi state) 0,
                        oya = dict_get (state_oya state) 0,
                        scores = pts, tehais = hands\<rparr>))))))"

text \<open>\<^verbatim>\<open>tsumo_event\<close>; \<open>None\<close> is Python's \<^verbatim>\<open>None\<close>, and \<^verbatim>\<open>tiles[-1]\<close> is the last tile.\<close>

definition tsumo_event :: "snapshot \<Rightarrow> error + event option" where
  "tsumo_event state =
     (let hand = dict_get (hand_tiles state) []
      in if length hand \<le> 13 then Inr None
         else (case list_item hand (- 1) of
                 Inl e \<Rightarrow> Inl e
               | Inr t \<Rightarrow>
                   (case tile_id_to_mjai t of
                      Inl e \<Rightarrow> Inl e
                    | Inr p \<Rightarrow> Inr (Some (E_tsumo (dict_get (player_wind state) 0) p)))))"

text \<open>
  The three builders of a call on another seat's tile. \<^verbatim>\<open>target is None or not pai_list\<close>
  raises; otherwise the event takes \<^verbatim>\<open>pai_list[0]\<close> and a prefix of \<^verbatim>\<open>consumed\<close>.
\<close>

definition chi_event :: "snapshot \<Rightarrow> error + event" where
  "chi_event state =
     (let who_acts = dict_get (player_wind state) 0
      in case selected_action state of
           Inl e \<Rightarrow> Inl e
         | Inr act \<Rightarrow>
             (case split_action_tiles act who_acts of
                Inl e \<Rightarrow> Inl e
              | Inr (own, pai_list, None) \<Rightarrow> Inl (RuntimeError_missing_target Chi)
              | Inr (own, [], Some seat_from) \<Rightarrow> Inl (RuntimeError_missing_target Chi)
              | Inr (own, p # ps, Some seat_from) \<Rightarrow>
                  Inr (E_chi who_acts seat_from p (take 2 own))))"

definition pon_event :: "snapshot \<Rightarrow> error + event" where
  "pon_event state =
     (let who_acts = dict_get (player_wind state) 0
      in case selected_action state of
           Inl e \<Rightarrow> Inl e
         | Inr act \<Rightarrow>
             (case split_action_tiles act who_acts of
                Inl e \<Rightarrow> Inl e
              | Inr (own, pai_list, None) \<Rightarrow> Inl (RuntimeError_missing_target Pon)
              | Inr (own, [], Some seat_from) \<Rightarrow> Inl (RuntimeError_missing_target Pon)
              | Inr (own, p # ps, Some seat_from) \<Rightarrow>
                  Inr (E_pon who_acts seat_from p (take 2 own))))"

definition daiminkan_event :: "snapshot \<Rightarrow> error + event" where
  "daiminkan_event state =
     (let who_acts = dict_get (player_wind state) 0
      in case selected_action state of
           Inl e \<Rightarrow> Inl e
         | Inr act \<Rightarrow>
             (case split_action_tiles act who_acts of
                Inl e \<Rightarrow> Inl e
              | Inr (own, pai_list, None) \<Rightarrow> Inl (RuntimeError_missing_target DaiMinKan)
              | Inr (own, [], Some seat_from) \<Rightarrow> Inl (RuntimeError_missing_target DaiMinKan)
              | Inr (own, p # ps, Some seat_from) \<Rightarrow>
                  Inr (E_daiminkan who_acts seat_from p (take 3 own))))"

text \<open>
  The two quad builders. \<^verbatim>\<open>kakan_event\<close> returns
  \<^verbatim>\<open>{"type": "kakan", "actor": actor, "pai": tiles[0], "consumed": tiles[:3]}\<close>.
\<close>

definition kakan_event :: "snapshot \<Rightarrow> error + event" where
  "kakan_event state =
     (let who_acts = dict_get (player_wind state) 0
      in case selected_action state of
           Inl e \<Rightarrow> Inl e
         | Inr act \<Rightarrow>
             (case actor_tiles act who_acts of
                Inl e \<Rightarrow> Inl e
              | Inr ts \<Rightarrow>
                  if length ts < 4 then Inl (RuntimeError_four_tiles ShouMinKan)
                  else (case list_item ts 0 of
                          Inl e \<Rightarrow> Inl e
                        | Inr p \<Rightarrow> Inr (E_kakan who_acts p (take 3 ts)))))"

definition ankan_event :: "snapshot \<Rightarrow> error + event" where
  "ankan_event state =
     (let who_acts = dict_get (player_wind state) 0
      in case selected_action state of
           Inl e \<Rightarrow> Inl e
         | Inr act \<Rightarrow>
             (case actor_tiles act who_acts of
                Inl e \<Rightarrow> Inl e
              | Inr ts \<Rightarrow>
                  if length ts < 4 then Inl (RuntimeError_four_tiles AnKan)
                  else Inr (E_ankan who_acts (take 4 ts))))"

text \<open>
  \<^verbatim>\<open>discard_event\<close> reads \<^verbatim>\<open>action["tiles"][0]\<close> itself, not through
  \<^verbatim>\<open>tiles_from_action\<close>.
\<close>

definition discard_event :: "snapshot \<Rightarrow> string option \<Rightarrow> error + event" where
  "discard_event state tsumogiri_tile =
     (let who_acts = dict_get (player_wind state) 0
      in case selected_action state of
           Inl e \<Rightarrow> Inl e
         | Inr act \<Rightarrow>
        (case dict_item (tiles act) ''tiles'' of
           Inl e \<Rightarrow> Inl e
         | Inr ts \<Rightarrow>
        (case list_item ts 0 of
           Inl e \<Rightarrow> Inl e
         | Inr tile_id \<Rightarrow>
        (case tile_id_to_mjai tile_id of
           Inl e \<Rightarrow> Inl e
         | Inr p \<Rightarrow>
             Inr (E_dahai who_acts p
                    (case tsumogiri_tile of None \<Rightarrow> False | Some t \<Rightarrow> t = p))))))"

definition reach_events :: "snapshot \<Rightarrow> string option \<Rightarrow> error + event list" where
  "reach_events state tsumogiri_tile =
     (let who_acts = dict_get (player_wind state) 0
      in case discard_event state tsumogiri_tile of
           Inl e \<Rightarrow> Inl e
         | Inr d \<Rightarrow> Inr [E_reach who_acts, d])"

definition skip_conversion :: "snapshot \<Rightarrow> event list" where
  "skip_conversion state = []"

text \<open>
  \<^verbatim>\<open>ACTION_BUILDERS[table](payload, tsumo_pai)\<close>, the call \<^verbatim>\<open>convert_table\<close> makes. Each
  entry but the first takes the two arguments. \<^verbatim>\<open>skip_conversion\<close> is declared with the
  single parameter \<^verbatim>\<open>state\<close>, so calling it with two positional arguments raises
  TypeError before its body runs.
\<close>

fun ACTION_BUILDERS :: "category \<Rightarrow> snapshot \<Rightarrow> string option \<Rightarrow> error + event list" where
  "ACTION_BUILDERS Skip state tsumo = Inl TypeError"
| "ACTION_BUILDERS Discard state tsumo =
     (case discard_event state tsumo of Inl e \<Rightarrow> Inl e | Inr ev \<Rightarrow> Inr [ev])"
| "ACTION_BUILDERS Chi state tsumo =
     (case chi_event state of Inl e \<Rightarrow> Inl e | Inr ev \<Rightarrow> Inr [ev])"
| "ACTION_BUILDERS Pon state tsumo =
     (case pon_event state of Inl e \<Rightarrow> Inl e | Inr ev \<Rightarrow> Inr [ev])"
| "ACTION_BUILDERS DaiMinKan state tsumo =
     (case daiminkan_event state of Inl e \<Rightarrow> Inl e | Inr ev \<Rightarrow> Inr [ev])"
| "ACTION_BUILDERS ShouMinKan state tsumo =
     (case kakan_event state of Inl e \<Rightarrow> Inl e | Inr ev \<Rightarrow> Inr [ev])"
| "ACTION_BUILDERS AnKan state tsumo =
     (case ankan_event state of Inl e \<Rightarrow> Inl e | Inr ev \<Rightarrow> Inr [ev])"
| "ACTION_BUILDERS Riichi state tsumo = reach_events state tsumo"

definition ryukyoku_event :: "snapshot \<Rightarrow> error + event" where
  "ryukyoku_event state =
     (case map_err (seat_reward state) [0, 1, 2, 3] of
        Inl e \<Rightarrow> Inl e
      | Inr ds \<Rightarrow> Inr (E_ryukyoku ds))"

definition tail_events :: "event list" where
  "tail_events = [E_end_kyoku, E_end_game]"

section \<open>Conversion\<close>

text \<open>
  The body of the loop of \<^verbatim>\<open>convert_table\<close> for one decoded payload: the list
  \<^verbatim>\<open>events\<close> as it stands when the row is written. \<^verbatim>\<open>tsumo["pai"] if tsumo else None\<close>
  is the drawn tile's symbol when there is a tsumo event.
\<close>

definition row_events :: "category \<Rightarrow> snapshot \<Rightarrow> error + event list" where
  "row_events table payload =
     (case tsumo_event payload of
        Inl e \<Rightarrow> Inl e
      | Inr tsumo \<Rightarrow>
     (case start_kyoku_event payload of
        Inl e \<Rightarrow> Inl e
      | Inr sk \<Rightarrow>
     (case ACTION_BUILDERS table payload (map_option ev_pai tsumo) of
        Inl e \<Rightarrow> Inl e
      | Inr built \<Rightarrow>
     (case ryukyoku_event payload of
        Inl e \<Rightarrow> Inl e
      | Inr ry \<Rightarrow>
          Inr ([start_game_event, sk]
               @ (case tsumo of None \<Rightarrow> [] | Some t \<Rightarrow> [t])
               @ built @ [ry] @ tail_events)))))"

text \<open>
  A stored blob either decompresses and parses to a snapshot, or \<^verbatim>\<open>gzip.decompress\<close>
  raises OSError, which the loop turns into a RuntimeError, or \<^verbatim>\<open>json.loads\<close> raises,
  which nothing catches.
\<close>

datatype blob = Payload snapshot | Corrupt_gzip | Corrupt_json

definition load_payload :: "category \<Rightarrow> int \<Rightarrow> blob \<Rightarrow> error + snapshot" where
  "load_payload table identifier b =
     (case b of
        Payload s \<Rightarrow> Inr s
      | Corrupt_gzip \<Rightarrow> Inl (RuntimeError_decompress identifier table)
      | Corrupt_json \<Rightarrow> Inl JSONDecodeError)"

text \<open>
  The output side: the directories that exist and the content of every file, a file
  being the list of events written to it, one per line. A path is its list of components.
\<close>

type_synonym path = "string list"

record filesystem =
  directories :: "path set"
  files :: "path \<rightharpoonup> event list"

record TableExportResult =
  table_of :: category
  rows_of :: nat
  output_of :: path

text \<open>\<^verbatim>\<open>path.mkdir(parents=True, exist_ok=True)\<close>: the path and all its ancestors exist afterwards.\<close>

definition ensure_directory :: "path \<Rightarrow> filesystem \<Rightarrow> filesystem" where
  "ensure_directory p fs =
     fs\<lparr>directories := directories fs \<union> set (map (\<lambda>n. take n p) [0 ..< Suc (length p)])\<rparr>"

fun table_lower :: "category \<Rightarrow> string" where
  "table_lower Skip = ''skip''"
| "table_lower Discard = ''discard''"
| "table_lower Chi = ''chi''"
| "table_lower Pon = ''pon''"
| "table_lower DaiMinKan = ''daiminkan''"
| "table_lower ShouMinKan = ''shouminkan''"
| "table_lower AnKan = ''ankan''"
| "table_lower Riichi = ''riichi''"

text \<open>
  The loop over the fetched rows: the lines written so far, and the exception that ended
  the loop if one did. A row's events are all built before its first line is written.
\<close>

fun write_rows :: "category \<Rightarrow> (int \<times> blob) list \<Rightarrow> event list \<Rightarrow> error option \<times> event list" where
  "write_rows table [] written = (None, written)"
| "write_rows table ((identifier, b) # rest) written =
     (case load_payload table identifier b of
        Inl e \<Rightarrow> (Some e, written)
      | Inr payload \<Rightarrow>
          (case row_events table payload of
             Inl e \<Rightarrow> (Some e, written)
           | Inr events \<Rightarrow> write_rows table rest (written @ events)))"

text \<open>
  \<^verbatim>\<open>convert_table\<close>. The cursor is the rows each table holds. Opening the output file
  for writing creates it empty; the \<^verbatim>\<open>with\<close> block closes it on every way out, so what
  was written before an exception stays in the file.
\<close>

definition convert_table ::
  "(category \<Rightarrow> (int \<times> blob) list) \<Rightarrow> category \<Rightarrow> path \<Rightarrow> filesystem
     \<Rightarrow> (error + TableExportResult) \<times> filesystem" where
  "convert_table cursor table output_dir fs =
     (let fetched = cursor table
      in if fetched = [] then (Inl (RuntimeError_empty table), fs)
         else
           (let fs1 = ensure_directory output_dir fs;
                output_path = output_dir @ [table_lower table @ ''.json.gz''];
                fs2 = fs1\<lparr>files := (files fs1)(output_path \<mapsto> [])\<rparr>;
                (failure, written) = write_rows table fetched [];
                fs3 = fs2\<lparr>files := (files fs2)(output_path \<mapsto> written)\<rparr>
            in case failure of
                 Some e \<Rightarrow> (Inl e, fs3)
               | None \<Rightarrow>
                   (Inr \<lparr>table_of = table, rows_of = length fetched, output_of = output_path\<rparr>,
                    fs3)))"

text \<open>\<^verbatim>\<open>run_conversion\<close>: the tables in the order of \<^verbatim>\<open>ACTION_BUILDERS\<close>, ended by the first failure.\<close>

fun run_tables ::
  "(category \<Rightarrow> (int \<times> blob) list) \<Rightarrow> category list \<Rightarrow> path \<Rightarrow> TableExportResult list
     \<Rightarrow> filesystem \<Rightarrow> (error + TableExportResult list) \<times> filesystem" where
  "run_tables cursor [] output_dir results fs = (Inr results, fs)"
| "run_tables cursor (table # rest) output_dir results fs =
     (case convert_table cursor table output_dir fs of
        (Inl e, fs') \<Rightarrow> (Inl e, fs')
      | (Inr r, fs') \<Rightarrow> run_tables cursor rest output_dir (results @ [r]) fs')"

definition run_conversion ::
  "(category \<Rightarrow> (int \<times> blob) list) \<Rightarrow> path \<Rightarrow> filesystem
     \<Rightarrow> (error + TableExportResult list) \<times> filesystem" where
  "run_conversion cursor output_dir fs =
     run_tables cursor [Skip, Discard, Chi, Pon, DaiMinKan, ShouMinKan, AnKan, Riichi]
       output_dir [] fs"

section \<open>The extractor as the specification words it\<close>

text \<open>
  The specification's account of \<^verbatim>\<open>split_action_tiles\<close>, written from its words and not
  from the loop: pair tiles with owners, drop the pairs with a negative tile id, decode
  every tile left, put the actor's tiles in source order into the first component, and
  take the last pair of another owner, if there is one, as the claimed tile and the seat
  it was claimed from.
\<close>

definition split_by_owner ::
  "action \<Rightarrow> int \<Rightarrow> error + (string list \<times> string list \<times> int option)" where
  "split_by_owner act actor_seat =
     (let pairs = filter (\<lambda>(tile, owner). 0 \<le> tile)
                    (zip (dict_get (tiles act) []) (dict_get (who act) []))
      in case map_err tile_id_to_mjai (map fst pairs) of
           Inl e \<Rightarrow> Inl e
         | Inr symbols \<Rightarrow>
             (let decoded = zip symbols (map snd pairs);
                  own = filter (\<lambda>(symb, owner). owner = actor_seat) decoded;
                  foreign = filter (\<lambda>(symb, owner). owner \<noteq> actor_seat) decoded
              in Inr (map fst own,
                      (if foreign = [] then [] else [fst (last foreign)]),
                      (if foreign = [] then None else Some (snd (last foreign))))))"

text \<open>
  An action entry cut to the pairs \<^verbatim>\<open>zip\<close> forms: both lists present and as long as the
  shorter of the two.
\<close>

definition paired_prefix :: "action \<Rightarrow> action" where
  "paired_prefix act =
     (let ts = dict_get (tiles act) []; ws = dict_get (who act) [];
          n = min (length ts) (length ws)
      in \<lparr>tiles = Some (take n ts), who = Some (take n ws)\<rparr>)"

text \<open>The snapshot whose action entries are all cut in that way.\<close>

definition pair_actions :: "snapshot \<Rightarrow> snapshot" where
  "pair_actions state =
     state\<lparr>valid_actions := map_option (map paired_prefix) (valid_actions state)\<rparr>"

section \<open>The event sequence as the specification words it\<close>

text \<open>
  The types of the events the specification gives each category, in order: none for
  Skip, a ready declaration and a discard for Riichi, and one event for every other
  category.
\<close>

fun category_types :: "category \<Rightarrow> string list" where
  "category_types Skip = []"
| "category_types Discard = [''dahai'']"
| "category_types Chi = [''chi'']"
| "category_types Pon = [''pon'']"
| "category_types DaiMinKan = [''daiminkan'']"
| "category_types ShouMinKan = [''kakan'']"
| "category_types AnKan = [''ankan'']"
| "category_types Riichi = [''reach'', ''dahai'']"

text \<open>
  The actor-owned and the externally owned pairs of an action entry, negative tile ids
  skipped, in the specification's sense.
\<close>

definition owned_by_actor :: "action \<Rightarrow> int \<Rightarrow> (int \<times> int) list" where
  "owned_by_actor act actor_seat =
     filter (\<lambda>(tile, owner). owner = actor_seat) (tiles_from_action act)"

definition owned_by_others :: "action \<Rightarrow> int \<Rightarrow> (int \<times> int) list" where
  "owned_by_others act actor_seat =
     filter (\<lambda>(tile, owner). owner \<noteq> actor_seat) (tiles_from_action act)"

section \<open>Example snapshots\<close>

definition example_seat :: seat_record where
  "example_seat = \<lparr>points = Some 25000, PointsReward = Some 0\<rparr>"

text \<open>A snapshot with one action entry, a hand, and the actor's seat wind.\<close>

definition example_state :: "action \<Rightarrow> int list \<Rightarrow> int \<Rightarrow> snapshot" where
  "example_state act hand wind =
     \<lparr>round_wind = Some 0, dora_indicators = Some [20], num_honba = Some 1,
      num_riichi = Some 2, state_kyoku = Some 7, state_oya = Some 3,
      player_wind = Some wind, hand_tiles = Some hand,
      seat = (\<lambda>idx. if idx < 4 then Some example_seat else None),
      valid_actions = Some [act], action_idx = Some 0\<rparr>"

definition hand13 :: "int list" where
  "hand13 = [0, 4, 8, 12, 16, 20, 24, 28, 32, 36, 40, 44, 48]"

text \<open>
  The Discard row of the specification's end-to-end scenario: round wind 0, seat wind 2,
  a hand of 14 tiles ending in tile id 8, and tile id 8 first in the action entry.
\<close>

definition example_discard_row :: snapshot where
  "example_discard_row = example_state \<lparr>tiles = Some [8], who = Some [2]\<rparr> (hand13 @ [8]) 2"

definition example_discard_events :: "event list" where
  "example_discard_events =
     [E_start_game [''Player0'', ''Player1'', ''Player2'', ''Player3''],
      E_start_kyoku
        \<lparr>bakaze = ''E'', dora_marker = ''6m'', kyoku = 4, honba = 1, kyotaku = 2, oya = 3,
         scores = [25000, 25000, 25000, 25000],
         tehais = [replicate 13 ''?'', replicate 13 ''?'',
                   [''1m'', ''2m'', ''3m'', ''4m'', ''5m'', ''6m'', ''7m'', ''8m'', ''9m'',
                    ''1p'', ''2p'', ''3p'', ''4p''],
                   replicate 13 ''?'']\<rparr>,
      E_tsumo 2 ''3m'', E_dahai 2 ''3m'' True, E_ryukyoku [0, 0, 0, 0],
      E_end_kyoku, E_end_game]"

text \<open>
  Three action entries for actor 0: four tiles of the actor, two tiles of the actor with
  one of seat 1, and a single tile of the actor whose id 136 is past the last tile.
\<close>

definition quad_action :: action where
  "quad_action = \<lparr>tiles = Some [0, 1, 2, 3], who = Some [0, 0, 0, 0]\<rparr>"

definition call_action :: action where
  "call_action = \<lparr>tiles = Some [4, 8, 0], who = Some [0, 0, 1]\<rparr>"

definition unknown_tile_action :: action where
  "unknown_tile_action = \<lparr>tiles = Some [136], who = Some [0]\<rparr>"

text \<open>
  A snapshot with most keys absent, a kyoku of 0 and a hand of two tiles, for the
  defaults and the padding of the round-start event.
\<close>

definition example_sparse_row :: snapshot where
  "example_sparse_row =
     \<lparr>round_wind = None, dora_indicators = None, num_honba = None, num_riichi = None,
      state_kyoku = Some 0, state_oya = None, player_wind = Some 1, hand_tiles = Some [0, 4],
      seat = (\<lambda>idx. if idx < 4 then Some example_seat else None),
      valid_actions = None, action_idx = None\<rparr>"

text \<open>
  A Discard row with two action entries, whose first tiles are 40 and 8, and the index
  that picks one of them; the rest is as in the row above.
\<close>

definition two_entry_row :: "int \<Rightarrow> int list \<Rightarrow> snapshot" where
  "two_entry_row idx hand =
     (example_state \<lparr>tiles = Some [40], who = Some [2]\<rparr> hand 2)
       \<lparr>valid_actions := Some [\<lparr>tiles = Some [40], who = Some [2]\<rparr>,
                                 \<lparr>tiles = Some [8, 40], who = Some [2, 2]\<rparr>],
        action_idx := Some idx\<rparr>"

section \<open>Properties of the tile codec\<close>

lemma length_MJAI_TILES: "length MJAI_TILES = 34"
  by (simp add: MJAI_TILES_def)

lemma tile_id_to_mjai_in_range:
  assumes "0 \<le> n" and "n div 4 < 34"
  shows "tile_id_to_mjai n = Inr (MJAI_TILES ! nat (n div 4))"
  using assms by (simp add: tile_id_to_mjai_def length_MJAI_TILES Let_def)

lemma tile_id_to_mjai_negative:
  "n < 0 \<Longrightarrow> tile_id_to_mjai n = Inl (ValueError_negative n)"
  by (simp add: tile_id_to_mjai_def)

lemma tile_id_to_mjai_too_large:
  assumes "0 \<le> n" and "34 \<le> n div 4"
  shows "tile_id_to_mjai n = Inl (ValueError_unknown n)"
  using assms by (simp add: tile_id_to_mjai_def length_MJAI_TILES Let_def)

text \<open>
  Claim C2. Every tile id from 0 to 135 decodes to one of the 34 symbols of the table;
  the four ids \<open>4 * k\<close>, \<open>4 * k + 1\<close>, \<open>4 * k + 2\<close> and \<open>4 * k + 3\<close> of a kind
  \<open>k\<close> from 0 to 33 decode to the same symbol; and every id that is negative or whose
  quotient by 4 is 34 or more fails with an InvalidTileId error.
\<close>

theorem tile_codec_total_on_range:
  "(0 \<le> n \<and> n \<le> 135 \<longrightarrow>
      (\<exists>symb. tile_id_to_mjai n = Inr symb \<and> symb \<in> set MJAI_TILES))
   \<and> (0 \<le> k \<and> k \<le> 33 \<longrightarrow>
      (\<exists>symb. tile_id_to_mjai (4 * k) = Inr symb \<and> tile_id_to_mjai (4 * k + 1) = Inr symb
         \<and> tile_id_to_mjai (4 * k + 2) = Inr symb \<and> tile_id_to_mjai (4 * k + 3) = Inr symb))
   \<and> (m < 0 \<or> m div 4 \<ge> 34 \<longrightarrow>
      (\<exists>e. tile_id_to_mjai m = Inl e \<and> InvalidTileId e))"
proof (intro conjI impI)
  assume h: "0 \<le> n \<and> n \<le> 135"
  then have q: "n div 4 < 34" by linarith
  have "nat (n div 4) < length MJAI_TILES"
    using h q by (simp add: length_MJAI_TILES)
  then have "MJAI_TILES ! nat (n div 4) \<in> set MJAI_TILES"
    by (rule nth_mem)
  then show "\<exists>symb. tile_id_to_mjai n = Inr symb \<and> symb \<in> set MJAI_TILES"
    using h q by (simp add: tile_id_to_mjai_in_range)
next
  assume h: "0 \<le> k \<and> k \<le> 33"
  have d0: "(4 * k) div 4 = k" by simp
  have d1: "(4 * k + 1) div 4 = k" by linarith
  have d2: "(4 * k + 2) div 4 = k" by linarith
  have d3: "(4 * k + 3) div 4 = k" by linarith
  show "\<exists>symb. tile_id_to_mjai (4 * k) = Inr symb \<and> tile_id_to_mjai (4 * k + 1) = Inr symb
         \<and> tile_id_to_mjai (4 * k + 2) = Inr symb \<and> tile_id_to_mjai (4 * k + 3) = Inr symb"
    using h by (simp add: tile_id_to_mjai_in_range d0 d1 d2 d3)
next
  assume h: "m < 0 \<or> 34 \<le> m div 4"
  show "\<exists>e. tile_id_to_mjai m = Inl e \<and> InvalidTileId e"
  proof (cases "m < 0")
    case True
    then show ?thesis by (simp add: tile_id_to_mjai_negative)
  next
    case False
    with h have "0 \<le> m" and "34 \<le> m div 4" by auto
    then show ?thesis by (simp add: tile_id_to_mjai_too_large)
  qed
qed

theorem tile_codec_total_on_range_witness:
  "tile_id_to_mjai 135 = Inr ''C'' \<and> ''C'' \<in> set MJAI_TILES
   \<and> tile_id_to_mjai 8 = Inr ''3m'' \<and> tile_id_to_mjai 9 = Inr ''3m''
   \<and> tile_id_to_mjai 10 = Inr ''3m'' \<and> tile_id_to_mjai 11 = Inr ''3m''
   \<and> tile_id_to_mjai 136 = Inl (ValueError_unknown 136)
   \<and> InvalidTileId (ValueError_unknown 136)"
  using tile_codec_total_on_range [of 135 2 136]
  by (simp add: tile_id_to_mjai_def MJAI_TILES_def)

section \<open>Properties of the extractor\<close>

lemma tile_symbol_nonempty:
  assumes "tile_id_to_mjai t = Inr symb"
  shows "symb \<noteq> []"
proof -
  have "symb \<in> set MJAI_TILES"
    using assms by (auto simp: tile_id_to_mjai_def Let_def split: if_splits)
  then show ?thesis by (auto simp: MJAI_TILES_def)
qed

lemma tile_error_is_invalid:
  "tile_id_to_mjai t = Inl e \<Longrightarrow> InvalidTileId e"
  by (auto simp: tile_id_to_mjai_def Let_def split: if_splits)

lemma map_err_symbols_nonempty:
  "map_err tile_id_to_mjai ts = Inr symbols \<Longrightarrow> [] \<notin> set symbols"
  by (induction ts arbitrary: symbols)
     (auto split: sum.splits dest: tile_symbol_nonempty)

lemma map_err_length:
  "map_err f xs = Inr ys \<Longrightarrow> length ys = length xs"
  by (induction xs arbitrary: ys) (auto split: sum.splits)

text \<open>
  The loop, started from any values of its three variables, in closed form: it fails where
  decoding the tiles in order fails, and otherwise extends \<open>c\<close> by the actor's tiles and
  overwrites \<open>p\<close> and \<open>t\<close> by the last pair of another owner.
\<close>

lemma split_loop_unfold:
  "split_loop ps a c p t =
     (case map_err tile_id_to_mjai (map fst ps) of
        Inl e \<Rightarrow> Inl e
      | Inr symbols \<Rightarrow>
          (let decoded = zip symbols (map snd ps);
               foreign = filter (\<lambda>(symb, owner). owner \<noteq> a) decoded
           in Inr (c @ map fst (filter (\<lambda>(symb, owner). owner = a) decoded),
                   (if foreign = [] then p else Some (fst (last foreign))),
                   (if foreign = [] then t else Some (snd (last foreign))))))"
proof (induction ps arbitrary: c p t)
  case Nil
  then show ?case by simp
next
  case (Cons x ps)
  obtain tile_id owner where x: "x = (tile_id, owner)" by (cases x)
  show ?case
  proof (cases "tile_id_to_mjai tile_id")
    case (Inl e)
    then show ?thesis by (simp add: x)
  next
    case (Inr symb)
    show ?thesis
    proof (cases "map_err tile_id_to_mjai (map fst ps)")
      case (Inl e)
      then show ?thesis using Inr by (simp add: x Cons.IH)
    next
      case rest: (Inr symbols)
      show ?thesis
        using Inr rest by (simp add: x Cons.IH Let_def)
    qed
  qed
qed

text \<open>
  Claim C3. \<^verbatim>\<open>_split_action_tiles\<close> computes what the specification describes: it
  agrees with \<open>split_by_owner\<close> on every action entry and actor, failures included. On
  the tiles 5, 9, -1, 13 with owners 0, 1, 0, 0 and actor 0 it returns the decoded tiles 5
  and 13 as consumed, the decoded tile 9 as claimed, and seat 1 as the seat claimed from.
\<close>

theorem split_action_tiles_as_specified:
  "split_action_tiles act a = split_by_owner act a
   \<and> split_action_tiles \<lparr>tiles = Some [5, 9, - 1, 13], who = Some [0, 1, 0, 0]\<rparr> 0
       = Inr ([''2m'', ''4m''], [''3m''], Some 1)
   \<and> tile_id_to_mjai 5 = Inr ''2m'' \<and> tile_id_to_mjai 13 = Inr ''4m''
   \<and> tile_id_to_mjai 9 = Inr ''3m''"
proof (intro conjI)
  show "split_action_tiles act a = split_by_owner act a"
  proof (cases "map_err tile_id_to_mjai (map fst (tiles_from_action act))")
    case (Inl e)
    then show ?thesis
      by (simp add: split_action_tiles_def split_by_owner_def split_loop_unfold
          tiles_from_action_def Let_def)
  next
    case (Inr symbols)
    let ?foreign = "filter (\<lambda>(symb, owner). owner \<noteq> a)
                      (zip symbols (map snd (tiles_from_action act)))"
    have ne: "[] \<notin> set symbols" using Inr by (rule map_err_symbols_nonempty)
    have "?foreign \<noteq> [] \<Longrightarrow> fst (last ?foreign) \<noteq> []"
    proof -
      assume n: "?foreign \<noteq> []"
      then have "last ?foreign \<in> set ?foreign" by (rule last_in_set)
      then have "last ?foreign \<in> set (zip symbols (map snd (tiles_from_action act)))"
        by auto
      then have "fst (last ?foreign) \<in> set symbols"
        by (metis in_set_zipE prod.collapse)
      with ne show ?thesis by auto
    qed
    then show ?thesis
      using Inr
      by (simp add: split_action_tiles_def split_by_owner_def split_loop_unfold
          tiles_from_action_def Let_def)
  qed
next
  show "split_action_tiles \<lparr>tiles = Some [5, 9, - 1, 13], who = Some [0, 1, 0, 0]\<rparr> 0
       = Inr ([''2m'', ''4m''], [''3m''], Some 1)"
    by (simp add: split_action_tiles_def tiles_from_action_def dict_get_def
        tile_id_to_mjai_def MJAI_TILES_def)
qed (simp_all add: tile_id_to_mjai_def MJAI_TILES_def)

section \<open>Action entries with lists of unequal length\<close>

lemma zip_paired_prefix:
  "zip (take (min (length xs) (length ys)) xs) (take (min (length xs) (length ys)) ys) = zip xs ys"
  by (simp add: take_zip [symmetric])

lemma tiles_from_action_paired_prefix:
  "tiles_from_action (paired_prefix act) = tiles_from_action act"
  by (simp add: tiles_from_action_def paired_prefix_def Let_def dict_get_def zip_paired_prefix)

lemma list_item_map:
  "list_item (map f xs) i = (case list_item xs i of Inl e \<Rightarrow> Inl e | Inr x \<Rightarrow> Inr (f x))"
  by (auto simp: list_item_def Let_def)

lemma selected_action_pair_actions:
  "selected_action (pair_actions state) =
     (case selected_action state of Inl e \<Rightarrow> Inl e | Inr act \<Rightarrow> Inr (paired_prefix act))"
  by (cases "valid_actions state"; cases "action_idx state")
     (simp_all add: selected_action_def pair_actions_def dict_item_def list_item_map)

lemma split_action_tiles_paired_prefix:
  "split_action_tiles (paired_prefix act) a = split_action_tiles act a"
  by (simp add: split_action_tiles_def tiles_from_action_paired_prefix)

lemma actor_tiles_paired_prefix:
  "actor_tiles (paired_prefix act) a = actor_tiles act a"
  by (simp add: actor_tiles_def tiles_from_action_paired_prefix)

lemma player_wind_pair_actions: "player_wind (pair_actions state) = player_wind state"
  by (simp add: pair_actions_def)

text \<open>
  Claim C10. \<^verbatim>\<open>tiles_from_action\<close> returns a list for every action entry, whatever the
  lengths of its two lists: the result is the non-negative pairs of the two lists cut to
  the shorter length, so the surplus of the longer list is ignored. The five builders
  that read the entry through \<^verbatim>\<open>tiles_from_action\<close> (chi, pon, daiminkan, kakan, ankan)
  give the same result, event or failure, on a snapshot and on the snapshot whose entries
  are cut to their paired prefixes.
\<close>

theorem tiles_from_action_pairs_shorter_length:
  "tiles_from_action act =
     filter (\<lambda>(tile, owner). 0 \<le> tile)
       (zip (take (min (length (dict_get (tiles act) [])) (length (dict_get (who act) [])))
               (dict_get (tiles act) []))
            (take (min (length (dict_get (tiles act) [])) (length (dict_get (who act) [])))
               (dict_get (who act) [])))
   \<and> chi_event (pair_actions state) = chi_event state
   \<and> pon_event (pair_actions state) = pon_event state
   \<and> daiminkan_event (pair_actions state) = daiminkan_event state
   \<and> kakan_event (pair_actions state) = kakan_event state
   \<and> ankan_event (pair_actions state) = ankan_event state"
proof (intro conjI)
  show "chi_event (pair_actions state) = chi_event state"
    by (cases "selected_action state")
       (simp_all add: chi_event_def selected_action_pair_actions player_wind_pair_actions
          split_action_tiles_paired_prefix)
  show "pon_event (pair_actions state) = pon_event state"
    by (cases "selected_action state")
       (simp_all add: pon_event_def selected_action_pair_actions player_wind_pair_actions
          split_action_tiles_paired_prefix)
  show "daiminkan_event (pair_actions state) = daiminkan_event state"
    by (cases "selected_action state")
       (simp_all add: daiminkan_event_def selected_action_pair_actions player_wind_pair_actions
          split_action_tiles_paired_prefix)
  show "kakan_event (pair_actions state) = kakan_event state"
    by (cases "selected_action state")
       (simp_all add: kakan_event_def selected_action_pair_actions player_wind_pair_actions
          actor_tiles_paired_prefix)
  show "ankan_event (pair_actions state) = ankan_event state"
    by (cases "selected_action state")
       (simp_all add: ankan_event_def selected_action_pair_actions player_wind_pair_actions
          actor_tiles_paired_prefix)
qed (simp add: tiles_from_action_def zip_paired_prefix)

section \<open>The self-draw event\<close>

lemma list_item_last: "xs \<noteq> [] \<Longrightarrow> list_item xs (- 1) = Inr (last xs)"
proof -
  assume ne: "xs \<noteq> []"
  then have pos: "0 < length xs" by simp
  then have "nat (int (length xs) + - 1) = length xs - 1" by simp
  with ne pos show ?thesis
    by (simp add: list_item_def last_conv_nth Suc_le_eq)
qed

lemma tile_id_to_mjai_cases:
  "tile_id_to_mjai t =
     (if t < 0 then Inl (ValueError_negative t)
      else if t div 4 < 34 then Inr (MJAI_TILES ! nat (t div 4))
      else Inl (ValueError_unknown t))"
  by (auto simp: tile_id_to_mjai_def Let_def length_MJAI_TILES)

lemma tsumo_event_long_hand:
  assumes "13 < length (dict_get (hand_tiles s) [])"
  shows "tsumo_event s =
     (case tile_id_to_mjai (last (dict_get (hand_tiles s) [])) of
        Inl e \<Rightarrow> Inl e
      | Inr p \<Rightarrow> Inr (Some (E_tsumo (dict_get (player_wind s) 0) p)))"
proof -
  have "dict_get (hand_tiles s) [] \<noteq> []" using assms by auto
  then show ?thesis using assms
    by (simp add: tsumo_event_def Let_def list_item_last)
qed

lemma tsumo_event_short_hand:
  "length (dict_get (hand_tiles s) []) \<le> 13 \<Longrightarrow> tsumo_event s = Inr None"
  by (simp add: tsumo_event_def Let_def)

text \<open>
  Claim C5, as stated, at a hand of 14 tiles whose last tile id is 136: the hand has more
  than 13 entries, and \<^verbatim>\<open>tsumo_event\<close> returns no event; it raises the ValueError of the
  tile codec.
\<close>

theorem tsumo_event_undecodable_draw:
  "13 < length (dict_get (hand_tiles
            (example_state \<lparr>tiles = Some [8], who = Some [0]\<rparr> (hand13 @ [136]) 0)) [])
   \<and> tsumo_event (example_state \<lparr>tiles = Some [8], who = Some [0]\<rparr> (hand13 @ [136]) 0)
       = Inl (ValueError_unknown 136)"
  by (simp add: tsumo_event_def example_state_def hand13_def dict_get_def list_item_def
      tile_id_to_mjai_def MJAI_TILES_def)

text \<open>
  Claim C5, amended. \<^verbatim>\<open>tsumo_event\<close> returns \<^verbatim>\<open>None\<close> if and only if the hand has at
  most 13 entries. It returns an event if and only if the hand has more than 13 entries
  and its last tile id is decodable (not negative, quotient by 4 below 34); the event is
  then a tsumo event whose \<^verbatim>\<open>pai\<close> is the decoded last tile and whose \<^verbatim>\<open>actor\<close> is the
  seat wind (0 when the field is absent). With more than 13 entries and a last tile id
  that is not decodable, it fails with an InvalidTileId error.
\<close>

theorem tsumo_event_gating:
  "(tsumo_event s = Inr None \<longleftrightarrow> length (dict_get (hand_tiles s) []) \<le> 13)
   \<and> ((\<exists>ev. tsumo_event s = Inr (Some ev)) \<longleftrightarrow>
        13 < length (dict_get (hand_tiles s) [])
        \<and> 0 \<le> last (dict_get (hand_tiles s) [])
        \<and> last (dict_get (hand_tiles s) []) div 4 < 34)
   \<and> (tsumo_event s = Inr (Some ev) \<longrightarrow>
        tile_id_to_mjai (last (dict_get (hand_tiles s) [])) = Inr (ev_pai ev)
        \<and> ev_actor ev = dict_get (player_wind s) 0
        \<and> ev = E_tsumo (ev_actor ev) (ev_pai ev))
   \<and> (13 < length (dict_get (hand_tiles s) [])
        \<and> \<not> (0 \<le> last (dict_get (hand_tiles s) [])
              \<and> last (dict_get (hand_tiles s) []) div 4 < 34) \<longrightarrow>
        (\<exists>e. tsumo_event s = Inl e \<and> InvalidTileId e))"
proof (cases "13 < length (dict_get (hand_tiles s) [])")
  case True
  note long = tsumo_event_long_hand [OF True]
  show ?thesis
    using True by (auto simp: long tile_id_to_mjai_cases split: if_splits)
next
  case False
  then have "tsumo_event s = Inr None" by (simp add: tsumo_event_short_hand)
  then show ?thesis using False by simp
qed

theorem tsumo_event_gating_witness:
  "tsumo_event (example_state \<lparr>tiles = Some [8], who = Some [0]\<rparr> (hand13 @ [8]) 2)
     = Inr (Some (E_tsumo 2 ''3m''))
   \<and> tile_id_to_mjai (last (hand13 @ [8])) = Inr ''3m''
   \<and> tsumo_event (example_state \<lparr>tiles = Some [8], who = Some [0]\<rparr> hand13 2) = Inr None
   \<and> length hand13 \<le> 13
   \<and> 13 < length (hand13 @ [- 1])
   \<and> tsumo_event (example_state \<lparr>tiles = Some [8], who = Some [0]\<rparr> (hand13 @ [- 1]) 2)
     = Inl (ValueError_negative (- 1))
   \<and> InvalidTileId (ValueError_negative (- 1))"
  using tsumo_event_gating
          [of "example_state \<lparr>tiles = Some [8], who = Some [0]\<rparr> (hand13 @ [8]) 2"
              "E_tsumo 2 ''3m''"]
        tsumo_event_gating
          [of "example_state \<lparr>tiles = Some [8], who = Some [0]\<rparr> hand13 2" "E_tsumo 2 ''3m''"]
        tsumo_event_gating
          [of "example_state \<lparr>tiles = Some [8], who = Some [0]\<rparr> (hand13 @ [- 1]) 2"
              "E_tsumo 2 ''3m''"]
  by (simp add: tsumo_event_def example_state_def hand13_def dict_get_def list_item_def
      tile_id_to_mjai_def MJAI_TILES_def)

section \<open>Empty tables\<close>

text \<open>
  Claim C8. When the table of a category holds no rows, \<^verbatim>\<open>convert_table\<close> fails with
  the EmptyCategory error and leaves the file system as it found it: no directory is
  made and no output file is opened, the failure coming before both.
\<close>

theorem convert_table_empty:
  "cursor table = [] \<Longrightarrow>
     convert_table cursor table output_dir fs = (Inl (RuntimeError_empty table), fs)
     \<and> EmptyCategory (RuntimeError_empty table)"
  by (simp add: convert_table_def)

theorem convert_table_empty_witness:
  "(\<lambda>c. []) Chi = ([] :: (int \<times> blob) list)
   \<and> convert_table (\<lambda>c. []) Chi [''converted''] \<lparr>directories = {}, files = Map.empty\<rparr>
       = (Inl (RuntimeError_empty Chi), \<lparr>directories = {}, files = Map.empty\<rparr>)
   \<and> EmptyCategory (RuntimeError_empty Chi)"
  using convert_table_empty
          [of "\<lambda>c. []" Chi "[''converted'']" "\<lparr>directories = {}, files = Map.empty\<rparr>"]
  by simp

text \<open>With at least one row the directory is made and the output file exists afterwards.\<close>

lemma convert_table_nonempty_creates:
  "cursor table \<noteq> [] \<Longrightarrow>
     files (snd (convert_table cursor table output_dir fs))
       (output_dir @ [table_lower table @ ''.json.gz'']) \<noteq> None
     \<and> output_dir \<in> directories (snd (convert_table cursor table output_dir fs))"
  by (simp add: convert_table_def Let_def ensure_directory_def split: prod.splits option.splits)

section \<open>The added-quad event\<close>

text \<open>
  What \<^verbatim>\<open>kakan_event\<close> emits when it succeeds: the first decoded actor-owned tile as
  \<^verbatim>\<open>pai\<close> and the first three as \<^verbatim>\<open>consumed\<close>; the fourth is required and not read.
\<close>

lemma kakan_event_fields:
  assumes "kakan_event s = Inr ev"
  shows "\<exists>act ts. selected_action s = Inr act
           \<and> actor_tiles act (dict_get (player_wind s) 0) = Inr ts \<and> 4 \<le> length ts
           \<and> ev = E_kakan (dict_get (player_wind s) 0) (ts ! 0) (take 3 ts)"
  using assms
  by (auto simp: kakan_event_def Let_def list_item_def split: sum.splits if_splits)

text \<open>
  Claim C1 at a ShouMinKan snapshot whose action entry holds the four actor-owned tiles
  0, 4, 8 and 12. They decode to 1m, 2m, 3m and 4m; the event's \<^verbatim>\<open>pai\<close> is 1m, the
  first of them, and not 4m, the fourth, while \<^verbatim>\<open>consumed\<close> is the first three.
\<close>

theorem kakan_event_takes_first_tile:
  "kakan_event (example_state \<lparr>tiles = Some [0, 4, 8, 12], who = Some [0, 0, 0, 0]\<rparr> hand13 0)
     = Inr (E_kakan 0 ''1m'' [''1m'', ''2m'', ''3m''])
   \<and> actor_tiles \<lparr>tiles = Some [0, 4, 8, 12], who = Some [0, 0, 0, 0]\<rparr> 0
     = Inr [''1m'', ''2m'', ''3m'', ''4m'']"
  by (simp add: kakan_event_def example_state_def selected_action_def dict_item_def
      dict_get_def list_item_def actor_tiles_def tiles_from_action_def tile_id_to_mjai_def
      MJAI_TILES_def)

section \<open>The event sequence of a row\<close>

lemma start_kyoku_event_type:
  "start_kyoku_event s = Inr e \<Longrightarrow> event_type e = ''start_kyoku''"
  by (auto simp: start_kyoku_event_def Let_def split: sum.splits)

lemma ryukyoku_event_type:
  "ryukyoku_event s = Inr e \<Longrightarrow> event_type e = ''ryukyoku''"
  by (auto simp: ryukyoku_event_def split: sum.splits)

lemma tsumo_event_type:
  "tsumo_event s = Inr drawn \<Longrightarrow>
     map event_type (case drawn of None \<Rightarrow> [] | Some t \<Rightarrow> [t])
       = (if 13 < length (dict_get (hand_tiles s) []) then [''tsumo''] else [])"
  by (auto simp: tsumo_event_def Let_def split: sum.splits if_splits)

lemma discard_event_type:
  "discard_event s t = Inr e \<Longrightarrow> event_type e = ''dahai''"
  by (auto simp: discard_event_def Let_def split: sum.splits)

lemma chi_event_type: "chi_event s = Inr e \<Longrightarrow> event_type e = ''chi''"
  by (auto simp: chi_event_def Let_def split: sum.splits prod.splits option.splits list.splits)

lemma pon_event_type: "pon_event s = Inr e \<Longrightarrow> event_type e = ''pon''"
  by (auto simp: pon_event_def Let_def split: sum.splits prod.splits option.splits list.splits)

lemma daiminkan_event_type: "daiminkan_event s = Inr e \<Longrightarrow> event_type e = ''daiminkan''"
  by (auto simp: daiminkan_event_def Let_def
      split: sum.splits prod.splits option.splits list.splits)

lemma kakan_event_type: "kakan_event s = Inr e \<Longrightarrow> event_type e = ''kakan''"
  by (auto simp: kakan_event_def Let_def split: sum.splits if_splits)

lemma ankan_event_type: "ankan_event s = Inr e \<Longrightarrow> event_type e = ''ankan''"
  by (auto simp: ankan_event_def Let_def split: sum.splits if_splits)

lemma ACTION_BUILDERS_types:
  "ACTION_BUILDERS table s t = Inr built \<Longrightarrow> map event_type built = category_types table"
  by (cases table)
     (auto simp: reach_events_def Let_def discard_event_type chi_event_type pon_event_type
        daiminkan_event_type kakan_event_type ankan_event_type split: sum.splits)

lemma row_events_parts:
  assumes "row_events table s = Inr evs"
  obtains drawn sk built ry where
    "tsumo_event s = Inr drawn" and
    "start_kyoku_event s = Inr sk" and
    "ACTION_BUILDERS table s (map_option ev_pai drawn) = Inr built" and
    "ryukyoku_event s = Inr ry" and
    "evs = [start_game_event, sk] @ (case drawn of None \<Rightarrow> [] | Some t \<Rightarrow> [t])
             @ built @ [ry] @ tail_events"
  using assms by (auto simp: row_events_def split: sum.splits)

lemma example_discard_row_events:
  "row_events Discard example_discard_row = Inr example_discard_events"
  by code_simp

text \<open>
  Claim C4. Whenever the conversion of a row succeeds, whatever the category, the types
  of the events written for it are, in order and with nothing else: start_game,
  start_kyoku, a tsumo when the hand has more than 13 tiles, the events of the category
  (at most two), ryukyoku, end_kyoku, end_game.
\<close>

theorem row_events_shape:
  assumes "row_events table s = Inr evs"
  shows "map event_type evs =
           [''start_game'', ''start_kyoku'']
           @ (if 13 < length (dict_get (hand_tiles s) []) then [''tsumo''] else [])
           @ category_types table
           @ [''ryukyoku'', ''end_kyoku'', ''end_game'']
         \<and> length (category_types table) \<le> 2"
proof -
  from assms obtain drawn sk built ry where
    t: "tsumo_event s = Inr drawn" and
    k: "start_kyoku_event s = Inr sk" and
    b: "ACTION_BUILDERS table s (map_option ev_pai drawn) = Inr built" and
    r: "ryukyoku_event s = Inr ry" and
    evs: "evs = [start_game_event, sk] @ (case drawn of None \<Rightarrow> [] | Some t \<Rightarrow> [t])
                 @ built @ [ry] @ tail_events"
    by (rule row_events_parts)
  have "map event_type evs =
          [''start_game'', event_type sk]
          @ map event_type (case drawn of None \<Rightarrow> [] | Some t \<Rightarrow> [t])
          @ map event_type built @ [event_type ry, ''end_kyoku'', ''end_game'']"
    by (simp add: evs start_game_event_def tail_events_def)
  then have "map event_type evs =
          [''start_game'', ''start_kyoku'']
           @ (if 13 < length (dict_get (hand_tiles s) []) then [''tsumo''] else [])
           @ category_types table
           @ [''ryukyoku'', ''end_kyoku'', ''end_game'']"
    by (simp only: start_kyoku_event_type [OF k] ryukyoku_event_type [OF r]
        tsumo_event_type [OF t] ACTION_BUILDERS_types [OF b])
  moreover have "length (category_types table) \<le> 2"
    by (cases table) simp_all
  ultimately show ?thesis by simp
qed

theorem row_events_shape_witness:
  "row_events Discard example_discard_row = Inr example_discard_events
   \<and> map event_type example_discard_events =
       [''start_game'', ''start_kyoku'', ''tsumo'', ''dahai'', ''ryukyoku'', ''end_kyoku'',
        ''end_game'']"
  using row_events_shape [OF example_discard_row_events] example_discard_row_events
  by (simp add: example_discard_events_def)

section \<open>The discard event of a row\<close>

text \<open>
  A Skip row never converts: the call of \<^verbatim>\<open>skip_conversion\<close> with two arguments raises.
\<close>

lemma skip_rows_never_convert: "row_events Skip s \<noteq> Inr evs"
  by (auto simp: row_events_def split: sum.splits)

lemma tsumo_event_pai:
  assumes "tsumo_event s = Inr drawn"
  shows "map_option ev_pai drawn =
           (if 13 < length (dict_get (hand_tiles s) [])
            then (case tile_id_to_mjai (last (dict_get (hand_tiles s) [])) of
                    Inl e \<Rightarrow> None | Inr p \<Rightarrow> Some p)
            else None)"
proof (cases "13 < length (dict_get (hand_tiles s) [])")
  case True
  then show ?thesis using assms
    by (auto simp: tsumo_event_long_hand split: sum.splits)
next
  case False
  then show ?thesis using assms by (auto simp: tsumo_event_short_hand)
qed

lemma tsumo_event_in_row:
  assumes "tsumo_event s = Inr drawn"
  shows "(drawn \<noteq> None) = (13 < length (dict_get (hand_tiles s) []))"
  using assms by (auto simp: tsumo_event_def Let_def split: if_splits sum.splits)

text \<open>
  The entry \<^verbatim>\<open>state["valid_actions"][state["action_idx"]]\<close> in terms of the two
  fields, and \<^verbatim>\<open>xs[0]\<close> in terms of the list.
\<close>

lemma selected_action_entry:
  assumes "selected_action s = Inr act"
  shows "\<exists>acts idx.
           valid_actions s = Some acts \<and> action_idx s = Some idx
           \<and> - int (length acts) \<le> idx \<and> idx < int (length acts)
           \<and> act = acts ! nat (if idx < 0 then int (length acts) + idx else idx)"
proof -
  from assms obtain acts idx where
    f: "valid_actions s = Some acts" "action_idx s = Some idx" and
    item: "list_item acts idx = Inr act"
    by (auto simp: selected_action_def dict_item_def split: option.splits)
  have "- int (length acts) \<le> idx \<and> idx < int (length acts)
        \<and> act = acts ! nat (if idx < 0 then int (length acts) + idx else idx)"
  proof (cases "idx < 0")
    case True
    with item show ?thesis by (simp add: list_item_def split: if_splits)
  next
    case False
    with item show ?thesis by (simp add: list_item_def split: if_splits)
  qed
  with f show ?thesis by blast
qed

lemma list_item_first:
  "list_item xs 0 = Inr x \<Longrightarrow> xs \<noteq> [] \<and> x = xs ! 0"
  by (auto simp: list_item_def split: if_splits)

lemma discard_event_fields:
  assumes "discard_event s t = Inr d"
  shows "\<exists>acts idx ts p.
           valid_actions s = Some acts \<and> action_idx s = Some idx
           \<and> - int (length acts) \<le> idx \<and> idx < int (length acts)
           \<and> tiles (acts ! nat (if idx < 0 then int (length acts) + idx else idx)) = Some ts
           \<and> ts \<noteq> []
           \<and> tile_id_to_mjai (ts ! 0) = Inr p
           \<and> d = E_dahai (dict_get (player_wind s) 0) p (t = Some p)"
proof -
  from assms obtain act ts tile_id p where
    sel: "selected_action s = Inr act" and
    ts: "tiles act = Some ts" and
    first: "list_item ts 0 = Inr tile_id" and
    p: "tile_id_to_mjai tile_id = Inr p" and
    d: "d = E_dahai (dict_get (player_wind s) 0) p (t = Some p)"
    by (auto simp: discard_event_def Let_def dict_item_def split: sum.splits option.splits)
  from selected_action_entry [OF sel] obtain acts idx where
    e: "valid_actions s = Some acts" "action_idx s = Some idx"
       "- int (length acts) \<le> idx" "idx < int (length acts)"
       "act = acts ! nat (if idx < 0 then int (length acts) + idx else idx)"
    by blast
  from list_item_first [OF first] have "ts \<noteq> []" "tile_id = ts ! 0" by simp_all
  with e ts p d show ?thesis by blast
qed

lemma tsumo_event_drawn:
  assumes "tsumo_event s = Inr drawn"
  shows "(case drawn of None \<Rightarrow> [] | Some t \<Rightarrow> [t]) =
           (if 13 < length (dict_get (hand_tiles s) [])
            then (case tile_id_to_mjai (last (dict_get (hand_tiles s) [])) of
                    Inl e \<Rightarrow> []
                  | Inr q \<Rightarrow> [E_tsumo (dict_get (player_wind s) 0) q])
            else [])"
proof (cases "13 < length (dict_get (hand_tiles s) [])")
  case True
  then show ?thesis using assms
    by (auto simp: tsumo_event_long_hand split: sum.splits)
next
  case False
  then show ?thesis using assms by (auto simp: tsumo_event_short_hand)
qed

lemma two_entry_row_second:
  "row_events Discard (two_entry_row 1 (hand13 @ [8])) = Inr example_discard_events"
  by code_simp

lemma two_entry_row_first:
  "row_events Discard (two_entry_row 0 (hand13 @ [8]))
     = Inr (example_discard_events [3 := E_dahai 2 ''2p'' False])"
  by code_simp

lemma two_entry_row_from_end:
  "row_events Discard (two_entry_row (- 2) (hand13 @ [40]))
     = Inr (example_discard_events [2 := E_tsumo 2 ''2p'', 3 := E_dahai 2 ''2p'' True])"
  by code_simp

lemma two_entry_row_no_draw:
  "row_events Discard (two_entry_row 1 hand13)
     = Inr (take 2 example_discard_events
            @ [E_dahai 2 ''3m'' False, E_ryukyoku [0, 0, 0, 0], E_end_kyoku, E_end_game])"
  by code_simp

text \<open>
  Claim C6. In every Discard row that converts, the snapshot has the fields
  \<^verbatim>\<open>valid_actions\<close> and \<^verbatim>\<open>action_idx\<close>, the index is within the list (counted from
  the end when negative), and the entry at that index has a non-empty \<^verbatim>\<open>tiles\<close> list whose
  first tile id decodes. The events hold exactly one dahai event; its tile is that
  decoded tile, \<^verbatim>\<open>decode(valid_actions[action_idx].tiles[0])\<close>, and its \<^verbatim>\<open>tsumogiri\<close>
  flag is true if and only if a self-draw tile was produced and equals that symbol. A
  self-draw tile is produced exactly when the hand has more than 13 tiles: the events
  then hold exactly one tsumo event, whose tile is the decoded last hand tile, and
  otherwise none, in which case the flag is false.
\<close>

theorem discard_tsumogiri_flag:
  assumes "row_events Discard s = Inr evs"
  shows "\<exists>acts idx ts p.
           valid_actions s = Some acts \<and> action_idx s = Some idx
           \<and> - int (length acts) \<le> idx \<and> idx < int (length acts)
           \<and> tiles (acts ! nat (if idx < 0 then int (length acts) + idx else idx)) = Some ts
           \<and> ts \<noteq> []
           \<and> tile_id_to_mjai (ts ! 0) = Inr p
           \<and> filter is_E_dahai evs =
               [E_dahai (dict_get (player_wind s) 0) p
                  (13 < length (dict_get (hand_tiles s) [])
                   \<and> tile_id_to_mjai (last (dict_get (hand_tiles s) [])) = Inr p)]
           \<and> (13 < length (dict_get (hand_tiles s) []) \<longrightarrow>
                (\<exists>q. tile_id_to_mjai (last (dict_get (hand_tiles s) [])) = Inr q
                   \<and> filter is_E_tsumo evs = [E_tsumo (dict_get (player_wind s) 0) q]))
           \<and> (length (dict_get (hand_tiles s) []) \<le> 13 \<longrightarrow>
                filter is_E_tsumo evs = []
                \<and> filter is_E_dahai evs = [E_dahai (dict_get (player_wind s) 0) p False])"
proof -
  let ?hand = "dict_get (hand_tiles s) []"
  from assms obtain drawn sk built ry where
    t: "tsumo_event s = Inr drawn" and
    k: "start_kyoku_event s = Inr sk" and
    b: "ACTION_BUILDERS Discard s (map_option ev_pai drawn) = Inr built" and
    r: "ryukyoku_event s = Inr ry" and
    evs: "evs = [start_game_event, sk] @ (case drawn of None \<Rightarrow> [] | Some t \<Rightarrow> [t])
                 @ built @ [ry] @ tail_events"
    by (rule row_events_parts)
  from b obtain d where d: "discard_event s (map_option ev_pai drawn) = Inr d"
    and built: "built = [d]"
    by (auto split: sum.splits)
  from discard_event_fields [OF d] obtain acts idx ts p where
    a: "valid_actions s = Some acts" "action_idx s = Some idx"
       "- int (length acts) \<le> idx" "idx < int (length acts)"
       "tiles (acts ! nat (if idx < 0 then int (length acts) + idx else idx)) = Some ts"
       "ts \<noteq> []" "tile_id_to_mjai (ts ! 0) = Inr p" and
    dd: "d = E_dahai (dict_get (player_wind s) 0) p (map_option ev_pai drawn = Some p)"
    by blast
  have flag: "(map_option ev_pai drawn = Some p) =
          (13 < length ?hand \<and> tile_id_to_mjai (last ?hand) = Inr p)"
    by (auto simp: tsumo_event_pai [OF t] split: sum.splits)
  have sk_d: "\<not> is_E_dahai sk"
    using start_kyoku_event_type [OF k] by (cases sk) auto
  have sk_t: "\<not> is_E_tsumo sk"
    using start_kyoku_event_type [OF k] by (cases sk) auto
  have ry_d: "\<not> is_E_dahai ry"
    using ryukyoku_event_type [OF r] by (cases ry) auto
  have ry_t: "\<not> is_E_tsumo ry"
    using ryukyoku_event_type [OF r] by (cases ry) auto
  have dr_d: "filter is_E_dahai (case drawn of None \<Rightarrow> [] | Some t \<Rightarrow> [t]) = []"
    using t by (auto simp: tsumo_event_def Let_def split: if_splits sum.splits)
  have dr_t: "filter is_E_tsumo (case drawn of None \<Rightarrow> [] | Some t \<Rightarrow> [t]) =
                (case drawn of None \<Rightarrow> [] | Some t \<Rightarrow> [t])"
    using t by (auto simp: tsumo_event_def Let_def split: if_splits sum.splits)
  have dahai: "filter is_E_dahai evs =
      [E_dahai (dict_get (player_wind s) 0) p
         (13 < length ?hand \<and> tile_id_to_mjai (last ?hand) = Inr p)]"
  proof -
    have "d = E_dahai (dict_get (player_wind s) 0) p
                (13 < length ?hand \<and> tile_id_to_mjai (last ?hand) = Inr p)"
      using dd flag by (simp only:)
    then show ?thesis
      by (simp add: evs built sk_d ry_d dr_d start_game_event_def tail_events_def)
  qed
  have tsumo: "filter is_E_tsumo evs = (case drawn of None \<Rightarrow> [] | Some t \<Rightarrow> [t])"
    by (simp add: evs built sk_t ry_t dr_t start_game_event_def tail_events_def dd)
  have long: "13 < length ?hand \<longrightarrow>
      (\<exists>q. tile_id_to_mjai (last ?hand) = Inr q
          \<and> filter is_E_tsumo evs = [E_tsumo (dict_get (player_wind s) 0) q])"
  proof
    assume l: "13 < length ?hand"
    with t obtain q where "tile_id_to_mjai (last ?hand) = Inr q"
      by (auto simp: tsumo_event_long_hand split: sum.splits)
    with l show "\<exists>q. tile_id_to_mjai (last ?hand) = Inr q
          \<and> filter is_E_tsumo evs = [E_tsumo (dict_get (player_wind s) 0) q]"
      by (simp add: tsumo tsumo_event_drawn [OF t])
  qed
  have short: "length ?hand \<le> 13 \<longrightarrow>
      filter is_E_tsumo evs = []
      \<and> filter is_E_dahai evs = [E_dahai (dict_get (player_wind s) 0) p False]"
    by (simp add: tsumo dahai tsumo_event_drawn [OF t])
  show ?thesis
    using a dahai long short by blast
qed

theorem discard_tsumogiri_flag_witness:
  "row_events Discard example_discard_row = Inr example_discard_events
   \<and> row_events Discard (two_entry_row 1 (hand13 @ [8])) = Inr example_discard_events
   \<and> filter is_E_dahai example_discard_events = [E_dahai 2 ''3m'' True]
   \<and> filter is_E_tsumo example_discard_events = [E_tsumo 2 ''3m'']
   \<and> row_events Discard (two_entry_row 0 (hand13 @ [8]))
       = Inr (example_discard_events [3 := E_dahai 2 ''2p'' False])
   \<and> filter is_E_dahai (example_discard_events [3 := E_dahai 2 ''2p'' False])
       = [E_dahai 2 ''2p'' False]
   \<and> row_events Discard (two_entry_row (- 2) (hand13 @ [40]))
       = Inr (example_discard_events [2 := E_tsumo 2 ''2p'', 3 := E_dahai 2 ''2p'' True])
   \<and> filter is_E_dahai
         (example_discard_events [2 := E_tsumo 2 ''2p'', 3 := E_dahai 2 ''2p'' True])
       = [E_dahai 2 ''2p'' True]
   \<and> row_events Discard (two_entry_row 1 hand13)
       = Inr (take 2 example_discard_events
              @ [E_dahai 2 ''3m'' False, E_ryukyoku [0, 0, 0, 0], E_end_kyoku, E_end_game])
   \<and> tile_id_to_mjai 8 = Inr ''3m'' \<and> tile_id_to_mjai 40 = Inr ''2p''"
proof -
  have concrete: ?thesis
    by code_simp
  from discard_tsumogiri_flag [OF example_discard_row_events]
    discard_tsumogiri_flag [OF two_entry_row_second]
    discard_tsumogiri_flag [OF two_entry_row_first]
    discard_tsumogiri_flag [OF two_entry_row_from_end]
    discard_tsumogiri_flag [OF two_entry_row_no_draw]
    concrete
  show ?thesis by blast
qed

section \<open>Minimum tiles of the call and quad builders\<close>

lemma tiles_from_action_nonneg:
  "(t, owner) \<in> set (tiles_from_action act) \<Longrightarrow> 0 \<le> t"
  by (auto simp: tiles_from_action_def)

lemma map_err_decode_ok:
  "\<forall>t \<in> set ts. 0 \<le> t \<and> t div 4 < 34 \<Longrightarrow>
     map_err tile_id_to_mjai ts = Inr (map (\<lambda>t. MJAI_TILES ! nat (t div 4)) ts)"
  by (induction ts) (simp_all add: tile_id_to_mjai_cases)

lemma map_err_decode_fail:
  "\<not> (\<forall>t \<in> set ts. 0 \<le> t \<and> t div 4 < 34) \<Longrightarrow>
     \<exists>e. map_err tile_id_to_mjai ts = Inl e \<and> InvalidTileId e"
proof (induction ts)
  case Nil
  then show ?case by simp
next
  case (Cons t ts)
  show ?case
  proof (cases "0 \<le> t \<and> t div 4 < 34")
    case True
    with Cons.prems have "\<not> (\<forall>t \<in> set ts. 0 \<le> t \<and> t div 4 < 34)" by simp
    from Cons.IH [OF this] obtain e where "map_err tile_id_to_mjai ts = Inl e" "InvalidTileId e"
      by blast
    moreover have "tile_id_to_mjai t = Inr (MJAI_TILES ! nat (t div 4))"
      using True by (simp add: tile_id_to_mjai_cases)
    ultimately show ?thesis by simp
  next
    case False
    then show ?thesis by (auto simp: tile_id_to_mjai_cases)
  qed
qed

lemma filter_zip_owner_empty:
  assumes "length symbols = length ps"
  shows "(filter (\<lambda>(symb, owner). P owner) (zip symbols (map snd ps)) = [])
           = (filter (\<lambda>(tile, owner). P owner) ps = [])"
proof -
  have "map snd (zip symbols (map snd ps)) = map snd ps"
    using assms by (simp add: map_snd_zip)
  then have "snd ` set (zip symbols (map snd ps)) = snd ` set ps"
    by (metis set_map)
  then have "(\<forall>x \<in> set (zip symbols (map snd ps)). \<not> P (snd x)) = (\<forall>x \<in> set ps. \<not> P (snd x))"
    by (metis (no_types, lifting) imageE imageI)
  then show ?thesis
    by (simp add: filter_empty_conv split_beta)
qed

lemma last_filter_zip_nonempty:
  assumes "[] \<notin> set symbols" and "filter P (zip symbols owners) \<noteq> []"
  shows "fst (last (filter P (zip symbols owners))) \<noteq> []"
proof -
  have "last (filter P (zip symbols owners)) \<in> set (filter P (zip symbols owners))"
    using assms(2) by (rule last_in_set)
  then have "last (filter P (zip symbols owners)) \<in> set (zip symbols owners)"
    by auto
  then have "fst (last (filter P (zip symbols owners))) \<in> set symbols"
    by (metis in_set_zipE prod.collapse)
  with assms(1) show ?thesis by metis
qed

lemma undecodable_pair:
  assumes "\<not> (\<forall>(tile, owner) \<in> set ps. tile div 4 < (34::int))"
  shows "\<not> (\<forall>t \<in> set (map fst ps). 0 \<le> t \<and> t div 4 < 34)"
proof -
  from assms obtain tile owner where "(tile, owner) \<in> set ps" "\<not> tile div 4 < 34"
    by auto
  then have "tile \<in> set (map fst ps)" "\<not> (0 \<le> tile \<and> tile div 4 < 34)"
    by force+
  then show ?thesis by blast
qed

lemma split_action_tiles_decodable:
  assumes "\<forall>(tile, owner) \<in> set (tiles_from_action act). tile div 4 < 34"
  shows "\<exists>own claimed seat_from.
           split_action_tiles act a = Inr (own, claimed, seat_from)
           \<and> (claimed = []) = (owned_by_others act a = [])
           \<and> (seat_from = None) = (owned_by_others act a = [])"
proof -
  let ?ps = "tiles_from_action act"
  let ?symbols = "map (\<lambda>t. MJAI_TILES ! nat (t div 4)) (map fst ?ps)"
  have "\<forall>t \<in> set (map fst ?ps). 0 \<le> t \<and> t div 4 < 34"
    using assms by (auto dest: tiles_from_action_nonneg)
  then have ok: "map_err tile_id_to_mjai (map fst ?ps) = Inr ?symbols"
    by (rule map_err_decode_ok)
  let ?foreign = "filter (\<lambda>(symb, owner). owner \<noteq> a) (zip ?symbols (map snd ?ps))"
  have fe: "(?foreign = []) = (owned_by_others act a = [])"
    unfolding owned_by_others_def by (rule filter_zip_owner_empty) simp
  have ne: "[] \<notin> set ?symbols" using ok by (rule map_err_symbols_nonempty)
  have "?foreign \<noteq> [] \<Longrightarrow> fst (last ?foreign) \<noteq> []"
    using ne by (rule last_filter_zip_nonempty)
  then show ?thesis
    using fe by (simp add: split_action_tiles_def split_loop_unfold ok Let_def)
qed

lemma split_action_tiles_undecodable:
  assumes "\<not> (\<forall>(tile, owner) \<in> set (tiles_from_action act). tile div 4 < 34)"
  shows "\<exists>e. split_action_tiles act a = Inl e \<and> InvalidTileId e"
proof -
  have "\<not> (\<forall>t \<in> set (map fst (tiles_from_action act)). 0 \<le> t \<and> t div 4 < 34)"
    using assms by (rule undecodable_pair)
  from map_err_decode_fail [OF this] show ?thesis
    by (auto simp: split_action_tiles_def split_loop_unfold)
qed

lemma actor_tiles_decodable:
  assumes "\<forall>(tile, owner) \<in> set (owned_by_actor act a). tile div 4 < 34"
  shows "\<exists>ts. actor_tiles act a = Inr ts \<and> length ts = length (owned_by_actor act a)"
proof -
  have "\<forall>t \<in> set (map fst (owned_by_actor act a)). 0 \<le> t \<and> t div 4 < 34"
    using assms by (auto simp: owned_by_actor_def dest: tiles_from_action_nonneg)
  from map_err_decode_ok [OF this] show ?thesis
    by (simp add: actor_tiles_def owned_by_actor_def)
qed

lemma actor_tiles_undecodable:
  assumes "\<not> (\<forall>(tile, owner) \<in> set (owned_by_actor act a). tile div 4 < 34)"
  shows "\<exists>e. actor_tiles act a = Inl e \<and> InvalidTileId e"
proof -
  have "\<not> (\<forall>t \<in> set (map fst (owned_by_actor act a)). 0 \<le> t \<and> t div 4 < 34)"
    using assms by (rule undecodable_pair)
  from map_err_decode_fail [OF this] show ?thesis
    by (simp add: actor_tiles_def owned_by_actor_def)
qed


lemma call_builders_by_split:
  assumes "selected_action s = Inr act"
    and "split_action_tiles act (dict_get (player_wind s) 0) = Inr (own, claimed, seat_from)"
  shows "(claimed = [] \<or> seat_from = None \<longrightarrow>
            chi_event s = Inl (RuntimeError_missing_target Chi)
            \<and> pon_event s = Inl (RuntimeError_missing_target Pon)
            \<and> daiminkan_event s = Inl (RuntimeError_missing_target DaiMinKan))
         \<and> (claimed \<noteq> [] \<and> seat_from \<noteq> None \<longrightarrow>
            (\<exists>ev. chi_event s = Inr ev) \<and> (\<exists>ev. pon_event s = Inr ev)
            \<and> (\<exists>ev. daiminkan_event s = Inr ev))"
  using assms
  by (cases claimed; cases seat_from)
     (simp_all add: chi_event_def pon_event_def daiminkan_event_def Let_def)

lemma call_builders_invalid_tile:
  assumes "selected_action s = Inr act"
    and "split_action_tiles act (dict_get (player_wind s) 0) = Inl e"
  shows "chi_event s = Inl e \<and> pon_event s = Inl e \<and> daiminkan_event s = Inl e"
  using assms by (simp add: chi_event_def pon_event_def daiminkan_event_def Let_def)

lemma quad_builders_by_tiles:
  assumes "selected_action s = Inr act"
    and "actor_tiles act (dict_get (player_wind s) 0) = Inr ts"
  shows "(length ts < 4 \<longrightarrow>
            kakan_event s = Inl (RuntimeError_four_tiles ShouMinKan)
            \<and> ankan_event s = Inl (RuntimeError_four_tiles AnKan))
         \<and> (4 \<le> length ts \<longrightarrow>
            (\<exists>ev. kakan_event s = Inr ev) \<and> (\<exists>ev. ankan_event s = Inr ev))"
  using assms
  by (auto simp: kakan_event_def ankan_event_def Let_def list_item_def)

lemma quad_builders_invalid_tile:
  assumes "selected_action s = Inr act"
    and "actor_tiles act (dict_get (player_wind s) 0) = Inl e"
  shows "kakan_event s = Inl e \<and> ankan_event s = Inl e"
  using assms by (simp add: kakan_event_def ankan_event_def Let_def)

text \<open>
  Claim C7, as stated, at a ShouMinKan snapshot whose action entry holds the single
  actor-owned tile id 136: fewer than four actor-owned tiles are present, and
  \<^verbatim>\<open>kakan_event\<close> fails with the ValueError of the tile codec, which is not a
  MalformedAction error, since the tiles are decoded before they are counted.
\<close>

theorem kakan_event_undecodable_tile:
  "selected_action (example_state unknown_tile_action hand13 0) = Inr unknown_tile_action
   \<and> length (owned_by_actor unknown_tile_action 0) < 4
   \<and> kakan_event (example_state unknown_tile_action hand13 0) = Inl (ValueError_unknown 136)
   \<and> \<not> MalformedAction (ValueError_unknown 136)"
  by code_simp

text \<open>
  Claim C7, amended. For a snapshot whose action entry is selected, with the actor its
  seat wind: when every actor-owned tile id of the entry is decodable, the ShouMinKan and
  AnKan builders fail with MalformedAction if fewer than four actor-owned tiles are
  present and succeed otherwise; when every paired non-negative tile id of the entry is
  decodable, the Chi, Pon and DaiMinKan builders fail with MalformedAction if no tile is
  owned by another seat and succeed otherwise. When a tile id the builder decodes is not
  decodable, the builder fails with InvalidTileId instead.
\<close>

theorem builders_minimum_tiles:
  assumes "selected_action s = Inr act"
  shows
    "((\<forall>(tile, owner) \<in> set (owned_by_actor act (dict_get (player_wind s) 0)). tile div 4 < 34) \<longrightarrow>
        (length (owned_by_actor act (dict_get (player_wind s) 0)) < 4 \<longrightarrow>
           kakan_event s = Inl (RuntimeError_four_tiles ShouMinKan)
           \<and> ankan_event s = Inl (RuntimeError_four_tiles AnKan)
           \<and> MalformedAction (RuntimeError_four_tiles ShouMinKan)
           \<and> MalformedAction (RuntimeError_four_tiles AnKan))
        \<and> (4 \<le> length (owned_by_actor act (dict_get (player_wind s) 0)) \<longrightarrow>
           (\<exists>ev. kakan_event s = Inr ev) \<and> (\<exists>ev. ankan_event s = Inr ev)))
     \<and> ((\<forall>(tile, owner) \<in> set (tiles_from_action act). tile div 4 < 34) \<longrightarrow>
        (owned_by_others act (dict_get (player_wind s) 0) = [] \<longrightarrow>
           chi_event s = Inl (RuntimeError_missing_target Chi)
           \<and> pon_event s = Inl (RuntimeError_missing_target Pon)
           \<and> daiminkan_event s = Inl (RuntimeError_missing_target DaiMinKan)
           \<and> MalformedAction (RuntimeError_missing_target Chi)
           \<and> MalformedAction (RuntimeError_missing_target Pon)
           \<and> MalformedAction (RuntimeError_missing_target DaiMinKan))
        \<and> (owned_by_others act (dict_get (player_wind s) 0) \<noteq> [] \<longrightarrow>
           (\<exists>ev. chi_event s = Inr ev) \<and> (\<exists>ev. pon_event s = Inr ev)
           \<and> (\<exists>ev. daiminkan_event s = Inr ev)))
     \<and> (\<not> (\<forall>(tile, owner) \<in> set (owned_by_actor act (dict_get (player_wind s) 0)).
              tile div 4 < 34) \<longrightarrow>
        (\<exists>e. kakan_event s = Inl e \<and> ankan_event s = Inl e \<and> InvalidTileId e))
     \<and> (\<not> (\<forall>(tile, owner) \<in> set (tiles_from_action act). tile div 4 < 34) \<longrightarrow>
        (\<exists>e. chi_event s = Inl e \<and> pon_event s = Inl e \<and> daiminkan_event s = Inl e
             \<and> InvalidTileId e))"
proof (intro conjI impI)
  let ?a = "dict_get (player_wind s) 0"
  {
    assume d: "\<forall>(tile, owner) \<in> set (owned_by_actor act ?a). tile div 4 < 34"
    from actor_tiles_decodable [OF d] obtain ts where
      ts: "actor_tiles act ?a = Inr ts" "length ts = length (owned_by_actor act ?a)"
      by blast
    note q = quad_builders_by_tiles [OF assms ts(1)]
    {
      assume "length (owned_by_actor act ?a) < 4"
      with q ts(2) show "kakan_event s = Inl (RuntimeError_four_tiles ShouMinKan)"
        and "ankan_event s = Inl (RuntimeError_four_tiles AnKan)"
        by simp_all
      show "MalformedAction (RuntimeError_four_tiles ShouMinKan)"
        and "MalformedAction (RuntimeError_four_tiles AnKan)"
        by simp_all
    }
    {
      assume "4 \<le> length (owned_by_actor act ?a)"
      with q ts(2) show "\<exists>ev. kakan_event s = Inr ev" and "\<exists>ev. ankan_event s = Inr ev"
        by simp_all
    }
  }
  {
    assume d: "\<forall>(tile, owner) \<in> set (tiles_from_action act). tile div 4 < 34"
    from split_action_tiles_decodable [OF d, of ?a] obtain own claimed seat_from where
      sp: "split_action_tiles act ?a = Inr (own, claimed, seat_from)"
        "(claimed = []) = (owned_by_others act ?a = [])"
        "(seat_from = None) = (owned_by_others act ?a = [])"
      by blast
    note c = call_builders_by_split [OF assms sp(1)]
    {
      assume "owned_by_others act ?a = []"
      with c sp(2,3) show "chi_event s = Inl (RuntimeError_missing_target Chi)"
        and "pon_event s = Inl (RuntimeError_missing_target Pon)"
        and "daiminkan_event s = Inl (RuntimeError_missing_target DaiMinKan)"
        by simp_all
      show "MalformedAction (RuntimeError_missing_target Chi)"
        and "MalformedAction (RuntimeError_missing_target Pon)"
        and "MalformedAction (RuntimeError_missing_target DaiMinKan)"
        by simp_all
    }
    {
      assume "owned_by_others act ?a \<noteq> []"
      with c sp(2,3) show "\<exists>ev. chi_event s = Inr ev" and "\<exists>ev. pon_event s = Inr ev"
        and "\<exists>ev. daiminkan_event s = Inr ev"
        by simp_all
    }
  }
  {
    assume d: "\<not> (\<forall>(tile, owner) \<in> set (owned_by_actor act ?a). tile div 4 < 34)"
    from actor_tiles_undecodable [OF d] obtain e where
      "actor_tiles act ?a = Inl e" "InvalidTileId e" by blast
    with quad_builders_invalid_tile [OF assms this(1)]
    show "\<exists>e. kakan_event s = Inl e \<and> ankan_event s = Inl e \<and> InvalidTileId e"
      by blast
  }
  {
    assume d: "\<not> (\<forall>(tile, owner) \<in> set (tiles_from_action act). tile div 4 < 34)"
    from split_action_tiles_undecodable [OF d, of ?a] obtain e where
      "split_action_tiles act ?a = Inl e" "InvalidTileId e" by blast
    with call_builders_invalid_tile [OF assms this(1)]
    show "\<exists>e. chi_event s = Inl e \<and> pon_event s = Inl e \<and> daiminkan_event s = Inl e
             \<and> InvalidTileId e"
      by blast
  }
qed

theorem builders_minimum_tiles_witness:
  "kakan_event (example_state quad_action hand13 0) = Inr (E_kakan 0 ''1m'' [''1m'', ''1m'', ''1m''])
   \<and> ankan_event (example_state quad_action hand13 0)
       = Inr (E_ankan 0 [''1m'', ''1m'', ''1m'', ''1m''])
   \<and> chi_event (example_state quad_action hand13 0) = Inl (RuntimeError_missing_target Chi)
   \<and> kakan_event (example_state call_action hand13 0) = Inl (RuntimeError_four_tiles ShouMinKan)
   \<and> chi_event (example_state call_action hand13 0) = Inr (E_chi 0 1 ''1m'' [''2m'', ''3m''])
   \<and> kakan_event (example_state unknown_tile_action hand13 0) = Inl (ValueError_unknown 136)
   \<and> chi_event (example_state unknown_tile_action hand13 0) = Inl (ValueError_unknown 136)"
proof -
  have q: "selected_action (example_state quad_action hand13 0) = Inr quad_action"
    by code_simp
  have c: "selected_action (example_state call_action hand13 0) = Inr call_action"
    by code_simp
  have u: "selected_action (example_state unknown_tile_action hand13 0)
             = Inr unknown_tile_action"
    by code_simp
  have concrete: ?thesis
    by code_simp
  from builders_minimum_tiles [OF q] builders_minimum_tiles [OF c]
    builders_minimum_tiles [OF u] concrete
  show ?thesis by blast
qed

section \<open>The round-start event\<close>

lemma WIND_TO_TILE_lookup:
  "(case WIND_TO_TILE w of None \<Rightarrow> ''E'' | Some t \<Rightarrow> t) =
     (if 0 \<le> w \<and> w \<le> 3 then [''E'', ''S'', ''W'', ''N''] ! nat w else ''E'')"
proof (cases "0 \<le> w \<and> w \<le> 3")
  case True
  then have "w = 0 \<or> w = 1 \<or> w = 2 \<or> w = 3" by arith
  then show ?thesis by (auto simp: WIND_TO_TILE_def)
next
  case False
  then show ?thesis by (auto simp: WIND_TO_TILE_def)
qed

lemma seat_points_bind:
  "seat_points s idx = Inr p \<Longrightarrow> Option.bind (seat s idx) points = Some p"
  by (auto simp: seat_points_def dict_item_def split: option.splits sum.splits)

lemma map_err_seat_points:
  assumes "map_err (seat_points s) idxs = Inr pts"
  shows "map (\<lambda>idx. Option.bind (seat s idx) points) idxs = map Some pts"
  using assms
  by (induction idxs arbitrary: pts) (auto split: sum.splits dest: seat_points_bind)

lemma first_dora:
  "list_item (case ds of None \<Rightarrow> [0] | Some [] \<Rightarrow> [0] | Some (d # r) \<Rightarrow> d # r) 0
     = Inr (case ds of None \<Rightarrow> 0 | Some [] \<Rightarrow> 0 | Some (d # r) \<Rightarrow> d)"
  by (auto simp: list_item_def split: option.splits list.splits)

lemma list_setitem_seat:
  assumes "list_setitem xs a v = Inr ys"
  shows "- int (length xs) \<le> a \<and> a < int (length xs)
         \<and> ys = xs[nat (if a < 0 then int (length xs) + a else a) := v]"
  using assms by (auto simp: list_setitem_def split: if_splits)

lemma start_kyoku_event_parts:
  assumes "start_kyoku_event s = Inr ev"
  obtains dora pts hand hands where
    "tile_id_to_mjai (case dora_indicators s of None \<Rightarrow> 0 | Some [] \<Rightarrow> 0 | Some (d # r) \<Rightarrow> d)
       = Inr dora" and
    "map_err (seat_points s) [0, 1, 2, 3] = Inr pts" and
    "map_err tile_id_to_mjai (dict_get (hand_tiles s) []) = Inr hand" and
    "list_setitem (replicate 4 (replicate 13 ''?'')) (dict_get (player_wind s) 0)
       (take 13 (if length (take 13 hand) < 13
                 then take 13 hand @ replicate (13 - length (take 13 hand)) ''?''
                 else take 13 hand)) = Inr hands" and
    "ev = E_start_kyoku
       \<lparr>bakaze = (case WIND_TO_TILE (dict_get (round_wind s) 0) of None \<Rightarrow> ''E'' | Some w \<Rightarrow> w),
        dora_marker = dora,
        kyoku = max 1 (min 4 (dict_get (state_kyoku s) 1)),
        honba = dict_get (num_honba s) 0,
        kyotaku = dict_get (num_riichi s) 0,
        oya = dict_get (state_oya s) 0,
        scores = pts, tehais = hands\<rparr>"
  using assms unfolding start_kyoku_event_def Let_def first_dora
  by (auto split: sum.splits)

lemma padded_hand:
  "take 13 (if length (take 13 hand) < 13
            then take 13 hand @ replicate (13 - length (take 13 hand)) ''?''
            else take 13 hand)
   = take 13 hand @ replicate (13 - length hand) ''?''"
  by auto

lemma example_discard_row_start_kyoku:
  "start_kyoku_event example_discard_row =
     Inr (E_start_kyoku
            \<lparr>bakaze = ''E'', dora_marker = ''6m'', kyoku = 4, honba = 1, kyotaku = 2, oya = 3,
             scores = [25000, 25000, 25000, 25000],
             tehais = [replicate 13 ''?'', replicate 13 ''?'',
                       [''1m'', ''2m'', ''3m'', ''4m'', ''5m'', ''6m'', ''7m'', ''8m'', ''9m'',
                        ''1p'', ''2p'', ''3p'', ''4p''],
                       replicate 13 ''?'']\<rparr>)"
  by code_simp

lemma example_sparse_row_start_kyoku:
  "start_kyoku_event example_sparse_row =
     Inr (E_start_kyoku
            \<lparr>bakaze = ''E'', dora_marker = ''1m'', kyoku = 1, honba = 0, kyotaku = 0, oya = 0,
             scores = [25000, 25000, 25000, 25000],
             tehais = [replicate 13 ''?'', [''1m'', ''2m''] @ replicate 11 ''?'',
                       replicate 13 ''?'', replicate 13 ''?'']\<rparr>)"
  by code_simp

text \<open>
  Claim C9. Whenever \<^verbatim>\<open>start_kyoku_event\<close> builds its event: \<^verbatim>\<open>kyoku\<close> is the snapshot's
  kyoku (1 when absent) clamped into 1 to 4; \<^verbatim>\<open>honba\<close>, \<^verbatim>\<open>kyotaku\<close> and \<^verbatim>\<open>oya\<close> are
  the snapshot's integers (0 when absent); \<^verbatim>\<open>bakaze\<close> is the wind of \<^verbatim>\<open>round_wind\<close>
  from the four-entry table, and E when the field is absent or outside 0 to 3;
  \<^verbatim>\<open>dora_marker\<close> is the decoded first dora indicator, tile id 0 standing in for an
  absent or empty list; \<^verbatim>\<open>scores\<close> are the points of the seats 0 to 3 in that order;
  and \<^verbatim>\<open>tehais\<close> is four hands of 13 unknown tiles, except that the hand at the
  actor's seat is the first 13 decoded hand tiles, padded on the right with unknown tiles
  to 13 entries. The actor's seat is the seat wind; Python's list assignment lets a seat
  wind from -4 to -1 count from the end, and any other value outside 0 to 3 raises.
\<close>

theorem start_kyoku_event_fields:
  assumes "start_kyoku_event s = Inr ev"
  shows "\<exists>sk hand.
           ev = E_start_kyoku sk
           \<and> kyoku sk = max 1 (min 4 (dict_get (state_kyoku s) 1))
           \<and> 1 \<le> kyoku sk \<and> kyoku sk \<le> 4
           \<and> honba sk = dict_get (num_honba s) 0
           \<and> kyotaku sk = dict_get (num_riichi s) 0
           \<and> oya sk = dict_get (state_oya s) 0
           \<and> bakaze sk =
               (case round_wind s of
                  None \<Rightarrow> ''E''
                | Some w \<Rightarrow> if 0 \<le> w \<and> w \<le> 3 then [''E'', ''S'', ''W'', ''N''] ! nat w else ''E'')
           \<and> tile_id_to_mjai
                 (case dora_indicators s of None \<Rightarrow> 0 | Some [] \<Rightarrow> 0 | Some (d # r) \<Rightarrow> d)
               = Inr (dora_marker sk)
           \<and> map (\<lambda>idx. Option.bind (seat s idx) points) [0, 1, 2, 3] = map Some (scores sk)
           \<and> map_err tile_id_to_mjai (dict_get (hand_tiles s) []) = Inr hand
           \<and> - 4 \<le> dict_get (player_wind s) 0 \<and> dict_get (player_wind s) 0 < 4
           \<and> tehais sk =
               (replicate 4 (replicate 13 ''?''))
                 [nat (if dict_get (player_wind s) 0 < 0 then 4 + dict_get (player_wind s) 0
                       else dict_get (player_wind s) 0)
                    := take 13 hand @ replicate (13 - length hand) ''?'']
           \<and> length (take 13 hand @ replicate (13 - length hand) ''?'') = 13"
proof -
  from assms obtain dora pts hand hands where
    d: "tile_id_to_mjai
          (case dora_indicators s of None \<Rightarrow> 0 | Some [] \<Rightarrow> 0 | Some (d # r) \<Rightarrow> d) = Inr dora" and
    p: "map_err (seat_points s) [0, 1, 2, 3] = Inr pts" and
    h: "map_err tile_id_to_mjai (dict_get (hand_tiles s) []) = Inr hand" and
    a: "list_setitem (replicate 4 (replicate 13 ''?'')) (dict_get (player_wind s) 0)
          (take 13 (if length (take 13 hand) < 13
                    then take 13 hand @ replicate (13 - length (take 13 hand)) ''?''
                    else take 13 hand)) = Inr hands" and
    ev: "ev = E_start_kyoku
       \<lparr>bakaze = (case WIND_TO_TILE (dict_get (round_wind s) 0) of None \<Rightarrow> ''E'' | Some w \<Rightarrow> w),
        dora_marker = dora,
        kyoku = max 1 (min 4 (dict_get (state_kyoku s) 1)),
        honba = dict_get (num_honba s) 0,
        kyotaku = dict_get (num_riichi s) 0,
        oya = dict_get (state_oya s) 0,
        scores = pts, tehais = hands\<rparr>"
    by (rule start_kyoku_event_parts)
  have wind: "(case WIND_TO_TILE (dict_get (round_wind s) 0) of None \<Rightarrow> ''E'' | Some w \<Rightarrow> w) =
      (case round_wind s of
         None \<Rightarrow> ''E''
       | Some w \<Rightarrow> if 0 \<le> w \<and> w \<le> 3 then [''E'', ''S'', ''W'', ''N''] ! nat w else ''E'')"
    by (cases "round_wind s") (simp_all add: WIND_TO_TILE_lookup dict_get_def)
  have seats: "- 4 \<le> dict_get (player_wind s) 0 \<and> dict_get (player_wind s) 0 < 4
      \<and> hands = (replicate 4 (replicate 13 ''?''))
                  [nat (if dict_get (player_wind s) 0 < 0 then 4 + dict_get (player_wind s) 0
                        else dict_get (player_wind s) 0)
                     := take 13 hand @ replicate (13 - length hand) ''?'']"
    using list_setitem_seat [OF a] by (simp add: padded_hand)
  have len: "length (take 13 hand @ replicate (13 - length hand) ''?'') = 13"
    by auto
  have clamp: "1 \<le> max 1 (min 4 (dict_get (state_kyoku s) 1))
      \<and> max 1 (min 4 (dict_get (state_kyoku s) 1)) \<le> (4::int)"
    by auto
  show ?thesis
    using d map_err_seat_points [OF p] h seats len clamp
    by (simp add: ev wind)
qed

theorem start_kyoku_event_fields_witness:
  "start_kyoku_event example_discard_row =
     Inr (E_start_kyoku
            \<lparr>bakaze = ''E'', dora_marker = ''6m'', kyoku = 4, honba = 1, kyotaku = 2, oya = 3,
             scores = [25000, 25000, 25000, 25000],
             tehais = [replicate 13 ''?'', replicate 13 ''?'',
                       [''1m'', ''2m'', ''3m'', ''4m'', ''5m'', ''6m'', ''7m'', ''8m'', ''9m'',
                        ''1p'', ''2p'', ''3p'', ''4p''],
                       replicate 13 ''?'']\<rparr>)
   \<and> start_kyoku_event example_sparse_row =
     Inr (E_start_kyoku
            \<lparr>bakaze = ''E'', dora_marker = ''1m'', kyoku = 1, honba = 0, kyotaku = 0, oya = 0,
             scores = [25000, 25000, 25000, 25000],
             tehais = [replicate 13 ''?'', [''1m'', ''2m''] @ replicate 11 ''?'',
                       replicate 13 ''?'', replicate 13 ''?'']\<rparr>)"
  using start_kyoku_event_fields [OF example_discard_row_start_kyoku]
    start_kyoku_event_fields [OF example_sparse_row_start_kyoku]
    example_discard_row_start_kyoku example_sparse_row_start_kyoku
  by blast

end
